theory Spec2Isabelle
  imports Complex_Main
begin

section \<open>Aggregate energy-service demand: building and transportation sectors\<close>

text \<open>
  This theory embeds \<^verbatim>\<open>BuildingDemandSector::initCalc\<close>,
  \<^verbatim>\<open>BuildingDemandSector::aggdemand\<close> (building_dmd_sector.cpp) and
  \<^verbatim>\<open>TranSector::checkSectorCalData\<close>, \<^verbatim>\<open>TranSector::aggdemand\<close>
  (tran_sector.cpp), and states the properties of the demand calibration and
  projection algorithm over the embedding.
\<close>

subsection \<open>The C++ type double\<close>

text \<open>
  A \<^verbatim>\<open>double\<close> is an IEEE 754 binary64 value: a finite value (\<open>Fin a\<close>, where
  \<open>Fin 0\<close> is the positive zero), the negative zero, an infinity or a NaN. The finite
  values of the type are the reals \<open>m * 2^e\<close> with \<open>|m| < 2^53\<close> and
  \<open>-1074 <= e <= 971\<close>; \<open>is_double\<close> below characterises them as the values that
  rounding leaves unchanged.
\<close>

datatype dbl = Fin real | NZero | PInf | NInf | NaN

fun is_nan :: "dbl \<Rightarrow> bool" where
  "is_nan NaN = True"
| "is_nan x = False"

fun is_inf :: "dbl \<Rightarrow> bool" where
  "is_inf PInf = True"
| "is_inf NInf = True"
| "is_inf x = False"

fun is_zero :: "dbl \<Rightarrow> bool" where
  "is_zero (Fin a) = (a = 0)"
| "is_zero NZero = True"
| "is_zero x = False"

fun is_finite :: "dbl \<Rightarrow> bool" where
  "is_finite (Fin a) = True"
| "is_finite NZero = True"
| "is_finite x = False"

fun signbit :: "dbl \<Rightarrow> bool" where
  "signbit (Fin a) = (a < 0)"
| "signbit NZero = True"
| "signbit PInf = False"
| "signbit NInf = True"
| "signbit NaN = False"

fun val :: "dbl \<Rightarrow> real" where
  "val (Fin a) = a"
| "val x = 0"

definition zero_of :: "bool \<Rightarrow> dbl" where
  "zero_of negative = (if negative then NZero else Fin 0)"

definition inf_of :: "bool \<Rightarrow> dbl" where
  "inf_of negative = (if negative then NInf else PInf)"

text \<open>
  Rounding to nearest, ties to even. \<open>rhe\<close> rounds a real to an integer;
  \<open>ulp_exp x\<close> is the exponent of the last place of the binary64 format at \<open>x\<close>
  (at least -1074, where the subnormal numbers lie); \<open>rnd_val x\<close> is \<open>x\<close> rounded
  to a multiple of \<open>2^(ulp_exp x)\<close>, and \<open>round64\<close> turns it into the double: an
  infinity when the rounded value reaches \<open>2^1024\<close> (overflow), a zero of the sign
  of \<open>x\<close> when it is zero (underflow).
\<close>

definition rhe :: "real \<Rightarrow> int" where
  "rhe r =
     (let f = \<lfloor>r\<rfloor>; d = r - of_int f
      in if d < 1 / 2 then f else if 1 / 2 < d then f + 1
         else if even f then f else f + 1)"

definition ulp_exp :: "real \<Rightarrow> int" where
  "ulp_exp x = max (\<lfloor>log 2 \<bar>x\<bar>\<rfloor> - 52) (- 1074)"

definition rnd_val :: "real \<Rightarrow> real" where
  "rnd_val x = of_int (rhe (x / 2 powi ulp_exp x)) * 2 powi ulp_exp x"

definition round64 :: "real \<Rightarrow> dbl" where
  "round64 x =
     (if x = 0 then Fin 0
      else if 2 ^ 1024 \<le> \<bar>rnd_val x\<bar> then inf_of (x < 0)
      else if rnd_val x = 0 then zero_of (x < 0)
      else Fin (rnd_val x))"

text \<open>
  The operations of the source: unary minus, \<^verbatim>\<open>+\<close>, \<^verbatim>\<open>-\<close>, \<^verbatim>\<open>*\<close>, \<^verbatim>\<open>/\<close>, the
  comparisons \<^verbatim>\<open><\<close> and \<^verbatim>\<open>>=\<close>, and \<^verbatim>\<open>pow\<close>. A finite result is the exact
  result rounded by \<open>round64\<close>; nothing traps, and the special cases (signed zeros,
  infinities, NaN) follow IEEE 754. The comparisons are false when an operand is a NaN
  and take the two zeros as equal.
\<close>

fun dneg :: "dbl \<Rightarrow> dbl" where
  "dneg (Fin a) = (if a = 0 then NZero else Fin (- a))"
| "dneg NZero = Fin 0"
| "dneg PInf = NInf"
| "dneg NInf = PInf"
| "dneg NaN = NaN"

definition dadd :: "dbl \<Rightarrow> dbl \<Rightarrow> dbl" where
  "dadd x y =
     (if is_nan x \<or> is_nan y then NaN
      else if is_inf x then (if is_inf y \<and> x \<noteq> y then NaN else x)
      else if is_inf y then y
      else if x = NZero \<and> y = NZero then NZero
      else round64 (val x + val y))"

definition dsub :: "dbl \<Rightarrow> dbl \<Rightarrow> dbl" where
  "dsub x y = dadd x (dneg y)"

definition dmul :: "dbl \<Rightarrow> dbl \<Rightarrow> dbl" where
  "dmul x y =
     (if is_nan x \<or> is_nan y then NaN
      else if is_inf x \<or> is_inf y
        then (if is_zero x \<or> is_zero y then NaN else inf_of (signbit x \<noteq> signbit y))
      else if is_zero x \<or> is_zero y then zero_of (signbit x \<noteq> signbit y)
      else round64 (val x * val y))"

definition ddiv :: "dbl \<Rightarrow> dbl \<Rightarrow> dbl" where
  "ddiv x y =
     (if is_nan x \<or> is_nan y then NaN
      else if is_inf x then (if is_inf y then NaN else inf_of (signbit x \<noteq> signbit y))
      else if is_inf y then zero_of (signbit x \<noteq> signbit y)
      else if is_zero y then (if is_zero x then NaN else inf_of (signbit x \<noteq> signbit y))
      else if is_zero x then zero_of (signbit x \<noteq> signbit y)
      else round64 (val x / val y))"

definition dlt :: "dbl \<Rightarrow> dbl \<Rightarrow> bool" where
  "dlt x y =
     (\<not> is_nan x \<and> \<not> is_nan y \<and>
      (case x of
         PInf \<Rightarrow> False
       | NInf \<Rightarrow> y \<noteq> NInf
       | _ \<Rightarrow> (case y of PInf \<Rightarrow> True | NInf \<Rightarrow> False | _ \<Rightarrow> val x < val y)))"

definition dge :: "dbl \<Rightarrow> dbl \<Rightarrow> bool" where
  "dge x y = (\<not> is_nan x \<and> \<not> is_nan y \<and> \<not> dlt x y)"

text \<open>
  \<^verbatim>\<open>pow(x, y)\<close> of \<^verbatim>\<open><cmath>\<close>, with the special cases of Annex F of C99:
  \<^verbatim>\<open>pow(x, 0)\<close> and \<^verbatim>\<open>pow(1, y)\<close> are 1 for every operand, a negative finite base
  with a non-integer exponent is a domain error (NaN). For a finite non-zero base and
  a finite non-zero exponent the result is the real power rounded by \<open>round64\<close>:
  the library function is taken as correctly rounded, which the C standard does not
  promise; the theorems below that depend on the value of such a power say so.
\<close>

definition is_int :: "real \<Rightarrow> bool" where
  "is_int y = (of_int \<lfloor>y\<rfloor> = y)"

definition is_odd_int :: "real \<Rightarrow> bool" where
  "is_odd_int y = (is_int y \<and> odd \<lfloor>y\<rfloor>)"

definition dpow :: "dbl \<Rightarrow> dbl \<Rightarrow> dbl" where
  "dpow x y =
     (if is_zero y then Fin 1
      else if x = Fin 1 then Fin 1
      else if is_nan x \<or> is_nan y then NaN
      else if y = PInf then
        (if is_inf x then PInf
         else if \<bar>val x\<bar> = 1 then Fin 1 else if \<bar>val x\<bar> < 1 then Fin 0 else PInf)
      else if y = NInf then
        (if is_inf x then Fin 0
         else if \<bar>val x\<bar> = 1 then Fin 1 else if \<bar>val x\<bar> < 1 then PInf else Fin 0)
      else if is_zero x then
        (if val y < 0 then (if is_odd_int (val y) then inf_of (signbit x) else PInf)
         else (if is_odd_int (val y) then x else Fin 0))
      else if x = PInf then (if val y < 0 then Fin 0 else PInf)
      else if x = NInf then
        (if val y < 0 then (if is_odd_int (val y) then NZero else Fin 0)
         else (if is_odd_int (val y) then NInf else PInf))
      else if 0 < val x then round64 (val x powr val y)
      else if is_int (val y) then
        (if odd \<lfloor>val y\<rfloor> then dneg (round64 ((- val x) powr val y))
         else round64 ((- val x) powr val y))
      else NaN)"

text \<open>Not negative: a finite value that is at least zero and not the negative zero,
  the positive infinity, or a NaN.\<close>

fun not_neg :: "dbl \<Rightarrow> bool" where
  "not_neg (Fin a) = (0 \<le> a)"
| "not_neg NZero = False"
| "not_neg PInf = True"
| "not_neg NInf = False"
| "not_neg NaN = True"

text \<open>A value of the type: every finite value is one that rounding returns.\<close>

fun is_double :: "dbl \<Rightarrow> bool" where
  "is_double (Fin a) = (round64 (a) = Fin a)"
| "is_double x = True"

subsection \<open>Collaborators outside the two files\<close>

text \<open>
  The GDP object and the model time are read through their accessors only; they are
  records of these accessors. The logger is a list of entries, each the level set
  before the insertions and the values inserted into the stream up to \<^verbatim>\<open>endl\<close>.
  Calls into the base classes and into the sector's market info
  (\<^verbatim>\<open>addItem\<close>, \<^verbatim>\<open>Sector::initCalc\<close>, \<^verbatim>\<open>setServiceDemand\<close>, \<^verbatim>\<open>setoutput\<close>,
  \<^verbatim>\<open>sumOutput\<close>) are recorded, in order and with their arguments, in the field
  \<open>calls\<close>; what these callees do is not part of the two files.
\<close>

record GDP =
  getBestScaledGDPperCap :: "nat \<Rightarrow> dbl"
  getApproxScaledGDP :: "nat \<Rightarrow> dbl"

record Modeltime =
  gettimestep :: "nat \<Rightarrow> dbl"

datatype log_level = DEBUG | WARNING

datatype log_item = Text string | Num nat | Val dbl

type_synonym log_entry = "log_level \<times> log_item list"

datatype call =
    AddItem string dbl
  | SectorInitCalc nat
  | SetServiceDemand dbl nat
  | Setoutput dbl nat
  | SumOutput nat

subsection \<open>The sector state\<close>

text \<open>
  The members the four functions read and write (\<open>output_vec\<close> is the member
  \<^verbatim>\<open>output\<close>). The class declarations are in headers outside the two files, so
  the members both sectors use are collected in one base record, together with the
  main log and the recorded calls; \<open>baseService\<close> and \<open>percentLicensed\<close> are the
  members the two constructors resize. A \<^verbatim>\<open>vector<double>\<close> indexed by period is
  a list and a period is a natural number. The functions index with \<^verbatim>\<open>operator[]\<close>,
  which does not check: a period is meant to be a valid index of every vector, and the
  theorems below assume it for the vectors whose written element they read back.
\<close>

record DemandSector =
  name :: string
  regionName :: string
  perCapitaBased :: bool
  pElasticity :: "dbl list"
  iElasticity :: "dbl list"
  aeei :: "dbl list"
  sectorprice :: "dbl list"
  service :: "dbl list"
  servicePreTechChange :: "dbl list"
  output_vec :: "dbl list"
  baseScaler :: dbl
  baseScalerNotLic :: dbl
  priceRatio :: dbl
  priceRatioNotLic :: dbl
  mainLog :: "log_entry list"
  calls :: "call list"

record BuildingDemandSector = DemandSector +
  baseService :: "dbl list"

record TranSector = DemandSector +
  percentLicensed :: "dbl list"

subsection \<open>BuildingDemandSector\<close>

definition BuildingDemandSector_initCalc ::
  "nat \<Rightarrow> (string \<Rightarrow> dbl) \<Rightarrow> BuildingDemandSector \<Rightarrow> BuildingDemandSector" where
  "BuildingDemandSector_initCalc period aRegionInfo s =
     (let s1 = s\<lparr>calls := calls s @
                 [AddItem ''heatingDegreeDays'' (aRegionInfo ''heatingDegreeDays''),
                  AddItem ''coolingDegreeDays'' (aRegionInfo ''coolingDegreeDays'')]\<rparr>;
          s2 = (if dlt (baseScaler s1) (Fin 0)
                then s1\<lparr>mainLog := mainLog s1 @
                          [(WARNING,
                            [Text ''WARNING: Building sector base demand service not set in period '',
                             Num period, Text '' sector '', Text (name s1),
                             Text '' region '', Text (regionName s1),
                             Text ''.  baseScaler being set to 1.''])],
                        baseScaler := Fin 1\<rparr>
                else s1)
      in s2\<lparr>calls := calls s2 @ [SectorInitCalc period]\<rparr>)"

text \<open>
  The local variable \<^verbatim>\<open>priceRatio\<close> of \<^verbatim>\<open>BuildingDemandSector::aggdemand\<close>:
  \<^verbatim>\<open>( period > 1 ) ? sectorprice[ period ]/sectorprice[ period - 1 ] : 1\<close>.
\<close>

definition building_priceRatio :: "BuildingDemandSector \<Rightarrow> nat \<Rightarrow> dbl" where
  "building_priceRatio s period =
     (if period > 1
      then ddiv (sectorprice s ! period) (sectorprice s ! (period - 1))
      else Fin 1)"

definition BuildingDemandSector_aggdemand ::
  "GDP \<Rightarrow> nat \<Rightarrow> BuildingDemandSector \<Rightarrow> BuildingDemandSector" where
  "BuildingDemandSector_aggdemand gdp period s =
     (let scaledGdpPerCapita = getBestScaledGDPperCap gdp period;
          scaledTotalGDP = getApproxScaledGDP gdp period;
          priceRatio = building_priceRatio s period;
          (s1, ser_dmd) =
            (if dge (baseService s ! period) (Fin 0) then
               (let b0 = ddiv (baseService s ! period)
                              (dpow priceRatio (pElasticity s ! period));
                    b1 = (if perCapitaBased s
                          then ddiv b0
                                 (ddiv (dmul (dpow scaledGdpPerCapita (iElasticity s ! period))
                                             scaledTotalGDP)
                                       scaledGdpPerCapita)
                          else ddiv b0 (dpow scaledTotalGDP (iElasticity s ! period)))
                in (s\<lparr>baseScaler := b1\<rparr>, baseService s ! period))
             else
               (if perCapitaBased s then
                  (let d0 = dmul (dmul (baseScaler s)
                                       (dpow priceRatio (pElasticity s ! period)))
                                 (dpow scaledGdpPerCapita (iElasticity s ! period))
                   in (s, dmul d0 (ddiv scaledTotalGDP scaledGdpPerCapita)))
                else
                  (s, dmul (dmul (baseScaler s)
                                 (dpow priceRatio (pElasticity s ! period)))
                           (dpow scaledTotalGDP (iElasticity s ! period)))));
          s2 = s1\<lparr>servicePreTechChange := (servicePreTechChange s1)[period := ser_dmd]\<rparr>;
          s3 = s2\<lparr>service := (service s2)[period := ser_dmd]\<rparr>
      in s3\<lparr>calls := calls s3 @
                [SetServiceDemand (service s3 ! period) period,
                 Setoutput (service s3 ! period) period,
                 SumOutput period]\<rparr>)"

subsection \<open>TranSector\<close>

text \<open>
  \<open>inputsAllFixed\<close> and \<open>getCalOutput\<close> stand for the inherited
  \<^verbatim>\<open>inputsAllFixed( period, "allInputs" )\<close> and \<^verbatim>\<open>getCalOutput( period )\<close>.
\<close>

definition TranSector_checkSectorCalData ::
  "(nat \<Rightarrow> bool) \<Rightarrow> (nat \<Rightarrow> dbl) \<Rightarrow> nat \<Rightarrow> TranSector \<Rightarrow> TranSector" where
  "TranSector_checkSectorCalData inputsAllFixed getCalOutput period s =
     (if inputsAllFixed period then
        (let scaleFactor = ddiv (getCalOutput period) (service s ! period);
             s1 = s\<lparr>service := (service s)[period := getCalOutput period]\<rparr>
         in s1\<lparr>mainLog := mainLog s1 @
                   [(DEBUG,
                     [Text ''Calibrated Demand Scaled by '', Val scaleFactor,
                      Text '' in region '', Text (regionName s1),
                      Text '' sector '', Text (name s1)])]\<rparr>)
      else s)"

definition TranSector_aggdemand ::
  "Modeltime \<Rightarrow> GDP \<Rightarrow> nat \<Rightarrow> TranSector \<Rightarrow> TranSector" where
  "TranSector_aggdemand modeltime gdp period s =
     (let scaledGdpPerCapita = getBestScaledGDPperCap gdp period;
          gdp1 = getApproxScaledGDP gdp period;
          s4 =
            (if period = 0 \<or> period = 1 then
               (let s1 = s\<lparr>priceRatio := Fin 1, priceRatioNotLic := Fin 1\<rparr>;
                    s2 =
                      (if perCapitaBased s1 then
                         s1\<lparr>baseScaler :=
                               ddiv (dmul (dmul (service s1 ! period) (percentLicensed s1 ! period))
                                          (dpow scaledGdpPerCapita (dneg (iElasticity s1 ! period))))
                                    (ddiv gdp1 scaledGdpPerCapita),
                             baseScalerNotLic :=
                               ddiv (dmul (dmul (service s1 ! period)
                                                (dsub (Fin 1) (percentLicensed s1 ! period)))
                                          (dpow scaledGdpPerCapita (dneg (iElasticity s1 ! period))))
                                    (ddiv gdp1 scaledGdpPerCapita)\<rparr>
                       else
                         s1\<lparr>baseScaler :=
                               dmul (dmul (dmul (service s1 ! period) (percentLicensed s1 ! period))
                                          (dpow (priceRatio s1) (dneg (pElasticity s1 ! period))))
                                    (dpow gdp1 (dneg (iElasticity s1 ! period))),
                             baseScalerNotLic :=
                               dmul (dmul (dmul (service s1 ! period)
                                                (dsub (Fin 1) (percentLicensed s1 ! period)))
                                          (dpow (priceRatioNotLic s1) (dneg (pElasticity s1 ! period))))
                                    (dpow gdp1 (dneg (iElasticity s1 ! period)))\<rparr>);
                    ser_dmd = service s2 ! period;
                    s3 = s2\<lparr>servicePreTechChange := (servicePreTechChange s2)[period := ser_dmd]\<rparr>
                in s3\<lparr>service := (service s3)[period := service s3 ! period]\<rparr>)
             else
               (let s1 = s\<lparr>priceRatio :=
                             ddiv (sectorprice s ! period) (sectorprice s ! (period - 1)),
                           priceRatioNotLic :=
                             ddiv (sectorprice s ! period) (sectorprice s ! (period - 1))\<rparr>;
                    ser_dmd =
                      (if perCapitaBased s1 then
                         (let d0 =
                                dadd (dmul (dmul (baseScaler s1)
                                                 (dpow (priceRatio s1) (pElasticity s1 ! period)))
                                           (dpow scaledGdpPerCapita (iElasticity s1 ! period)))
                                     (dmul (dmul (baseScalerNotLic s1)
                                                 (dpow (priceRatioNotLic s1) (pElasticity s1 ! period)))
                                           (dpow scaledGdpPerCapita (iElasticity s1 ! period)))
                          in dmul d0 (ddiv gdp1 scaledGdpPerCapita))
                       else
                         dmul (dmul (baseScaler s1)
                                    (dpow (priceRatio s1) (pElasticity s1 ! period)))
                              (dpow gdp1 (iElasticity s1 ! period)));
                    s2 = s1\<lparr>servicePreTechChange := (servicePreTechChange s1)[period := ser_dmd]\<rparr>
                in s2\<lparr>service :=
                        (service s2)[period :=
                           ddiv ser_dmd (dpow (dadd (Fin 1) (aeei s2 ! period))
                                              (gettimestep modeltime period))]\<rparr>));
          s5 = s4\<lparr>output_vec := (output_vec s4)[period := service s4 ! period]\<rparr>
      in s5\<lparr>calls := calls s5 @
                [Setoutput (service s5 ! period) period, SumOutput period]\<rparr>)"


subsection \<open>Example data\<close>

text \<open>
  The scenario used for the concrete instances below: aggregate GDP 100 in the two base
  periods and 121 afterwards, GDP per capita 1 and then 2, time steps of length 1. The
  building sector has observed service 100 in period 1 only and income elasticity 1/2;
  the transportation sector has service 100 read in for the base periods, half of it
  licensed, income elasticity 1 and an efficiency trend of 1 in period 3 only.
\<close>

definition gdp_ex :: GDP where
  "gdp_ex = \<lparr>getBestScaledGDPperCap = (\<lambda>p. if p \<le> 1 then Fin 1 else Fin 2),
            getApproxScaledGDP = (\<lambda>p. if p \<le> 1 then Fin 100 else Fin 121)\<rparr>"

definition modeltime_ex :: Modeltime where
  "modeltime_ex = \<lparr>gettimestep = (\<lambda>p. Fin 1)\<rparr>"

definition building_ex :: BuildingDemandSector where
  "building_ex =
     \<lparr>name = ''building'', regionName = ''USA'', perCapitaBased = False,
      pElasticity = [Fin 0, Fin 0, Fin (- 1), Fin (- 1)],
      iElasticity = [Fin (1 / 2), Fin (1 / 2), Fin (1 / 2), Fin (1 / 2)],
      aeei = [Fin 0, Fin 0, Fin 0, Fin 0],
      sectorprice = [Fin 1, Fin 1, Fin 1, Fin 1],
      service = [Fin 0, Fin 0, Fin 0, Fin 0],
      servicePreTechChange = [Fin 0, Fin 0, Fin 0, Fin 0],
      output_vec = [Fin 0, Fin 0, Fin 0, Fin 0],
      baseScaler = Fin (- 1), baseScalerNotLic = Fin 0,
      priceRatio = Fin 1, priceRatioNotLic = Fin 1,
      mainLog = [], calls = [],
      baseService = [Fin (- 1), Fin 100, Fin (- 1), Fin (- 1)]\<rparr>"

definition tran_ex :: TranSector where
  "tran_ex =
     \<lparr>name = ''transportation'', regionName = ''USA'', perCapitaBased = False,
      pElasticity = [Fin 0, Fin 0, Fin (- 1), Fin (- 1)],
      iElasticity = [Fin 1, Fin 1, Fin 1, Fin 1],
      aeei = [Fin 0, Fin 0, Fin 0, Fin 1],
      sectorprice = [Fin 1, Fin 1, Fin 1, Fin 1],
      service = [Fin 100, Fin 100, Fin 0, Fin 0],
      servicePreTechChange = [Fin 0, Fin 0, Fin 0, Fin 0],
      output_vec = [Fin 0, Fin 0, Fin 0, Fin 0],
      baseScaler = Fin 0, baseScalerNotLic = Fin 0,
      priceRatio = Fin 0, priceRatioNotLic = Fin 0,
      mainLog = [], calls = [],
      percentLicensed = [Fin (1 / 2), Fin (1 / 2), Fin (1 / 2), Fin (1 / 2)]\<rparr>"

text \<open>The transportation example after its calibration in period 1.\<close>

definition tran_ex_calibrated :: TranSector where
  "tran_ex_calibrated = TranSector_aggdemand modeltime_ex gdp_ex 1 tran_ex"

text \<open>The building example after its calibration in period 1.\<close>

definition building_ex_calibrated :: BuildingDemandSector where
  "building_ex_calibrated = BuildingDemandSector_aggdemand gdp_ex 1 building_ex"

text \<open>The calibrated transportation example after period 2, and without any trend.\<close>

definition tran_ex_period2 :: TranSector where
  "tran_ex_period2 = TranSector_aggdemand modeltime_ex gdp_ex 2 tran_ex_calibrated"

definition tran_notrend_ex :: TranSector where
  "tran_notrend_ex = tran_ex_calibrated\<lparr>aeei := [Fin 0, Fin 0, Fin 0, Fin 0]\<rparr>"

text \<open>A GDP object whose GDP per capita is zero, and the building example per capita.\<close>

definition gdp_zero_ex :: GDP where
  "gdp_zero_ex = \<lparr>getBestScaledGDPperCap = (\<lambda>p. Fin 0),
                 getApproxScaledGDP = (\<lambda>p. Fin 100)\<rparr>"

definition building_percapita_ex :: BuildingDemandSector where
  "building_percapita_ex = building_ex\<lparr>perCapitaBased := True\<rparr>"



text \<open>
  The transportation example with everybody licensed and the elasticities of the
  building example.
\<close>

definition tran_single_ex :: TranSector where
  "tran_single_ex =
     tran_ex\<lparr>iElasticity := iElasticity building_ex,
             percentLicensed := [Fin 1, Fin 1, Fin 1, Fin 1]\<rparr>"


text \<open>The double nearest to 1/100, which is \<^verbatim>\<open>pow(100, -1)\<close>.\<close>

definition hundredth :: real where
  "hundredth = 5764607523034235 / 576460752303423488"

text \<open>
  Extreme but finite and positive drivers: GDP per capita \<open>2^-100\<close> and aggregate GDP
  \<open>2^1000\<close>, whose quotient exceeds the largest double; a per-capita building sector
  with all elasticities 0 and no scaler set; and a building sector with no scaler set,
  price elasticity 2000 and income elasticity -2000 in period 2, where the price doubles.
\<close>

definition gdp_huge_ex :: GDP where
  "gdp_huge_ex = \<lparr>getBestScaledGDPperCap = (\<lambda>p. Fin (1 / 2 ^ 100)),
                 getApproxScaledGDP = (\<lambda>p. Fin (2 ^ 1000))\<rparr>"

definition building_flat_ex :: BuildingDemandSector where
  "building_flat_ex =
     building_ex\<lparr>perCapitaBased := True,
                 pElasticity := [Fin 0, Fin 0, Fin 0, Fin 0],
                 iElasticity := [Fin 0, Fin 0, Fin 0, Fin 0]\<rparr>"

definition building_clash_ex :: BuildingDemandSector where
  "building_clash_ex =
     building_ex\<lparr>pElasticity := [Fin 0, Fin 0, Fin 2000, Fin 0],
                 iElasticity := [Fin 0, Fin 0, Fin (- 2000), Fin 0],
                 sectorprice := [Fin 1, Fin 1, Fin 2, Fin 2]\<rparr>"











text \<open>The transportation example per capita.\<close>

definition tran_percapita_ex :: TranSector where
  "tran_percapita_ex = tran_ex\<lparr>perCapitaBased := True\<rparr>"

text \<open>
  The double nearest to 1/3, which is \<^verbatim>\<open>pow(3, -1)\<close>, and the doubles nearest to
  100 times that value and to 100/3: they differ in the last place. The GDP is 3 in the
  base periods and 4 afterwards; everybody is licensed, and the income elasticity is 1.
\<close>

definition third :: real where
  "third = 6004799503160661 / 18014398509481984"

definition tran_third_scaler :: real where
  "tran_third_scaler = 4691249611844266 / 140737488355328"

definition building_third_scaler :: real where
  "building_third_scaler = 4691249611844267 / 140737488355328"

definition gdp_third_ex :: GDP where
  "gdp_third_ex = \<lparr>getBestScaledGDPperCap = (\<lambda>p. Fin 1),
                  getApproxScaledGDP = (\<lambda>p. if p \<le> 1 then Fin 3 else Fin 4)\<rparr>"

definition tran_third_ex :: TranSector where
  "tran_third_ex = tran_ex\<lparr>percentLicensed := [Fin 1, Fin 1, Fin 1, Fin 1]\<rparr>"

definition building_third_ex :: BuildingDemandSector where
  "building_third_ex = building_ex\<lparr>iElasticity := [Fin 1, Fin 1, Fin 1, Fin 1]\<rparr>"

text \<open>
  A per-capita scenario: GDP per capita 1 and then 4, aggregate GDP 100 and then 400;
  the transportation sector with everybody licensed and the building sector after its
  calibration in period 1.
\<close>

definition gdp_pc_ex :: GDP where
  "gdp_pc_ex = \<lparr>getBestScaledGDPperCap = (\<lambda>p. if p \<le> 1 then Fin 1 else Fin 4),
               getApproxScaledGDP = (\<lambda>p. if p \<le> 1 then Fin 100 else Fin 400)\<rparr>"

definition tran_single_pc_ex :: TranSector where
  "tran_single_pc_ex = tran_single_ex\<lparr>perCapitaBased := True\<rparr>"

definition building_pc_calibrated_ex :: BuildingDemandSector where
  "building_pc_calibrated_ex = BuildingDemandSector_aggdemand gdp_pc_ex 1 building_percapita_ex"

text \<open>
  A scenario whose aggregate GDP is 0 in the base periods and 100 afterwards, at GDP
  per capita 1.
\<close>

definition gdp_nogdp_ex :: GDP where
  "gdp_nogdp_ex = \<lparr>getBestScaledGDPperCap = (\<lambda>p. Fin 1),
                  getApproxScaledGDP = (\<lambda>p. if p \<le> 1 then Fin 0 else Fin 100)\<rparr>"

section \<open>Properties\<close>

subsection \<open>Rounding\<close>

lemma powr_powi_two: "(2::real) powr (of_int k) = 2 powi k"
  by (simp add: powr_real_of_int')

lemma powr_powi_two_Suc: "(2::real) powr (of_int k + 1) = 2 powi (k + 1)"
  using powr_powi_two [of "k + 1"] by simp

lemma floor_log2_eq:
  assumes "(2::real) powi k \<le> x" and "x < 2 powi (k + 1)"
  shows "\<lfloor>log 2 x\<rfloor> = k"
proof -
  have "0 < (2::real) powi k" by simp
  then have x: "0 < x" using assms(1) by linarith
  have "2 powr (of_int k) \<le> x \<and> x < 2 powr (of_int k + 1)"
    using assms unfolding powr_powi_two powr_powi_two_Suc by simp
  then show ?thesis using x floor_log_eq_powr_iff [of x 2 k] by simp
qed

lemma floor_log2_bounds:
  assumes "0 < (x::real)"
  shows "2 powi \<lfloor>log 2 x\<rfloor> \<le> x" and "x < 2 powi (\<lfloor>log 2 x\<rfloor> + 1)"
proof -
  have "2 powr (of_int \<lfloor>log 2 x\<rfloor>) \<le> x \<and> x < 2 powr (of_int \<lfloor>log 2 x\<rfloor> + 1)"
    using floor_log_eq_powr_iff [of x 2 "\<lfloor>log 2 x\<rfloor>"] assms by simp
  then show "2 powi \<lfloor>log 2 x\<rfloor> \<le> x" and "x < 2 powi (\<lfloor>log 2 x\<rfloor> + 1)"
    unfolding powr_powi_two powr_powi_two_Suc by simp_all
qed

lemma rhe_eval:
  assumes "of_int n - 1 / 2 < r" and "r < of_int n + 1 / 2"
  shows "rhe r = n"
proof (cases "of_int n \<le> r")
  case True
  then have "\<lfloor>r\<rfloor> = n" using assms(2) by (intro floor_unique) auto
  then show ?thesis using assms(2) by (simp add: rhe_def Let_def)
next
  case False
  then have "\<lfloor>r\<rfloor> = n - 1" using assms(1) by (intro floor_unique) auto
  then show ?thesis using assms(1) False by (simp add: rhe_def Let_def)
qed

lemma rhe_of_int [simp]: "rhe (of_int n) = n"
  by (rule rhe_eval) auto

lemma rhe_le:
  assumes "r \<le> of_int n"
  shows "rhe r \<le> n"
proof -
  have f: "\<lfloor>r\<rfloor> \<le> n" using assms by (simp add: floor_le_iff) 
  show ?thesis
  proof (cases "\<lfloor>r\<rfloor> = n")
    case True
    then have "r = of_int n" using assms by (metis of_int_floor_le antisym)
    then show ?thesis by simp
  next
    case False
    then have "\<lfloor>r\<rfloor> + 1 \<le> n" using f by simp
    then show ?thesis by (auto simp: rhe_def Let_def)
  qed
qed

lemma rhe_ge:
  assumes "of_int n \<le> r"
  shows "n \<le> rhe r"
proof -
  have "n \<le> \<lfloor>r\<rfloor>" using assms by (simp add: le_floor_iff)
  then show ?thesis by (auto simp: rhe_def Let_def)
qed

lemma rhe_mono:
  assumes "r \<le> s"
  shows "rhe r \<le> rhe s"
proof (cases "\<lfloor>r\<rfloor> = \<lfloor>s\<rfloor>")
  case True
  then show ?thesis using assms by (auto simp: rhe_def Let_def)
next
  case False
  then have "\<lfloor>r\<rfloor> + 1 \<le> \<lfloor>s\<rfloor>" using floor_mono [OF assms] by simp
  moreover have "rhe r \<le> \<lfloor>r\<rfloor> + 1" by (auto simp: rhe_def Let_def)
  moreover have "\<lfloor>s\<rfloor> \<le> rhe s" by (auto simp: rhe_def Let_def)
  ultimately show ?thesis by linarith
qed

lemma ulp_exp_eq:
  assumes "2 powi k \<le> \<bar>x\<bar>" and "\<bar>x\<bar> < 2 powi (k + 1)"
  shows "ulp_exp x = max (k - 52) (- 1074)"
  using floor_log2_eq [OF assms] by (simp add: ulp_exp_def)

lemma rnd_val_eval:
  assumes "2 powi k \<le> \<bar>x\<bar>" and "\<bar>x\<bar> < 2 powi (k + 1)"
    and "e = max (k - 52) (- 1074)"
    and "of_int n - 1 / 2 < x / 2 powi e" and "x / 2 powi e < of_int n + 1 / 2"
  shows "rnd_val x = of_int n * 2 powi e"
  using ulp_exp_eq [OF assms(1,2)] rhe_eval [OF assms(4,5)] assms(3)
  by (simp add: rnd_val_def)

lemma powi_two_less_cancel:
  assumes "(2::real) powi a < 2 powi b"
  shows "a < b"
proof (rule ccontr)
  assume "\<not> a < b"
  then have "(2::real) powi b \<le> 2 powi a" by (intro power_int_increasing) simp_all
  with assms show False by simp
qed

lemma powi_two_le_cancel:
  assumes "(2::real) powi a \<le> 2 powi b"
  shows "a \<le> b"
proof (rule ccontr)
  assume "\<not> a \<le> b"
  then have "(2::real) powi b < 2 powi a" by (intro power_int_strict_increasing) simp_all
  with assms show False by simp
qed

lemma rhe_zero [simp]: "rhe 0 = 0"
  using rhe_of_int [of 0] by simp

lemma powi_two_diff: "(2::real) powi a / 2 powi b = 2 powi (a - b)"
  by (simp add: power_int_diff)

lemma powi_two_nonneg_int: "0 \<le> d \<Longrightarrow> (2::real) powi d = of_int (2 ^ nat d)"
  by (simp add: power_int_def)

lemma rnd_val_exact:
  assumes "x = of_int m * 2 powi e" and "\<bar>m\<bar> < 2 ^ 53" and "- 1074 \<le> e"
  shows "rnd_val x = x"
proof (cases "m = 0")
  case True
  then show ?thesis using assms(1) by (simp add: rnd_val_def)
next
  case False
  then have x0: "0 < \<bar>x\<bar>" using assms(1) by simp
  let ?k = "\<lfloor>log 2 \<bar>x\<bar>\<rfloor>"
  have "\<bar>x\<bar> = of_int \<bar>m\<bar> * 2 powi e" using assms(1) by (simp add: abs_mult)
  also have "\<dots> < of_int (2 ^ 53) * 2 powi e"
    using assms(2) by (intro mult_strict_right_mono) (simp_all del: of_int_power)
  also have "\<dots> = 2 powi (e + 53)" by (simp add: power_int_add)
  finally have "\<bar>x\<bar> < 2 powi (e + 53)" .
  with floor_log2_bounds(1) [OF x0] have "2 powi ?k < (2::real) powi (e + 53)" by linarith
  then have "?k < e + 53" by (rule powi_two_less_cancel)
  then have le: "ulp_exp x \<le> e" using assms(3) by (simp add: ulp_exp_def)
  define d where "d = e - ulp_exp x"
  have d: "0 \<le> d" "e = ulp_exp x + d" using le by (simp_all add: d_def)
  define M where "M = m * 2 ^ nat d"
  have "x / 2 powi ulp_exp x = of_int m * (2 powi e / 2 powi ulp_exp x)" using assms(1) by simp
  also have "\<dots> = of_int m * 2 powi d" by (simp add: powi_two_diff d_def)
  also have "\<dots> = of_int M" using d(1) by (simp add: powi_two_nonneg_int M_def)
  finally have q: "x / 2 powi ulp_exp x = of_int M" .
  have "rnd_val x = of_int M * 2 powi ulp_exp x"
    unfolding rnd_val_def q rhe_of_int ..
  also have "\<dots> = x / 2 powi ulp_exp x * 2 powi ulp_exp x" unfolding q ..
  also have "\<dots> = x" by simp
  finally show ?thesis .
qed

lemma round64_exact:
  assumes "x = of_int m * 2 powi e" and "\<bar>m\<bar> < 2 ^ 53" and "- 1074 \<le> e" and "e \<le> 971"
  shows "round64 x = Fin x"
proof (cases "x = 0")
  case True
  then show ?thesis by (simp add: round64_def)
next
  case False
  have "\<bar>x\<bar> = of_int \<bar>m\<bar> * 2 powi e" using assms(1) by (simp add: abs_mult)
  also have "\<dots> < of_int (2 ^ 53) * 2 powi e"
    using assms(2) by (intro mult_strict_right_mono) (simp_all del: of_int_power)
  also have "\<dots> \<le> of_int (2 ^ 53) * 2 powi 971"
    using assms(4) by (intro mult_left_mono power_int_increasing) simp_all
  also have "\<dots> = 2 ^ 1024" by simp
  finally have "\<bar>x\<bar> < 2 ^ 1024" .
  then show ?thesis
    using False rnd_val_exact [OF assms(1,2,3)] by (simp add: round64_def)
qed

lemma rhe_abs_le:
  assumes "\<bar>r\<bar> \<le> of_int n"
  shows "\<bar>rhe r\<bar> \<le> n"
proof -
  have "rhe r \<le> n" using assms by (intro rhe_le) linarith
  moreover have "- n \<le> rhe r" using assms by (intro rhe_ge) simp
  ultimately show ?thesis by linarith
qed

lemma rhe_abs_ge:
  assumes "of_int n \<le> \<bar>r\<bar>" and "0 \<le> n"
  shows "n \<le> \<bar>rhe r\<bar>"
proof (cases "0 \<le> r")
  case True
  then have "n \<le> rhe r" using assms by (intro rhe_ge) simp
  then show ?thesis by linarith
next
  case False
  then have "rhe r \<le> - n" using assms by (intro rhe_le) simp
  then show ?thesis by linarith
qed

lemma ulp_exp_ge: "- 1074 \<le> ulp_exp x"
  by (simp add: ulp_exp_def)

lemma ulp_exp_bounds:
  assumes "x \<noteq> 0"
  shows "\<bar>x\<bar> / 2 powi ulp_exp x < 2 powi 53"
proof -
  let ?k = "\<lfloor>log 2 \<bar>x\<bar>\<rfloor>"
  have x0: "0 < \<bar>x\<bar>" using assms by simp
  have "\<bar>x\<bar> / 2 powi ulp_exp x < 2 powi (?k + 1) / 2 powi ulp_exp x"
    using floor_log2_bounds(2) [OF x0] by (intro divide_strict_right_mono) simp_all
  also have "\<dots> = 2 powi (?k + 1 - ulp_exp x)" by (rule powi_two_diff)
  also have "\<dots> \<le> 2 powi 53"
    by (intro power_int_increasing) (simp_all add: ulp_exp_def)
  finally show ?thesis .
qed

lemma rnd_val_abs: "\<bar>rnd_val x\<bar> = of_int \<bar>rhe (x / 2 powi ulp_exp x)\<bar> * 2 powi ulp_exp x"
  by (simp add: rnd_val_def abs_mult)

lemma rnd_val_repr:
  assumes "x \<noteq> 0" and "\<bar>rnd_val x\<bar> < 2 ^ 1024"
  shows "\<exists>m e. rnd_val x = of_int m * 2 powi e \<and> \<bar>m\<bar> < 2 ^ 53 \<and> - 1074 \<le> e \<and> e \<le> 971"
proof -
  let ?e = "ulp_exp x"
  let ?m = "rhe (x / 2 powi ?e)"
  let ?k = "\<lfloor>log 2 \<bar>x\<bar>\<rfloor>"
  have x0: "0 < \<bar>x\<bar>" using assms(1) by simp
  have q: "\<bar>x / 2 powi ?e\<bar> = \<bar>x\<bar> / 2 powi ?e" by simp
  have "\<bar>x / 2 powi ?e\<bar> \<le> of_int (2 ^ 53)"
    using ulp_exp_bounds [OF assms(1)] unfolding q by simp
  then have mle: "\<bar>?m\<bar> \<le> 2 ^ 53" by (rule rhe_abs_le)
  have val: "\<bar>rnd_val x\<bar> = of_int \<bar>?m\<bar> * 2 powi ?e" by (rule rnd_val_abs)
  show ?thesis
  proof (cases "\<bar>?m\<bar> = 2 ^ 53")
    case True
    have "2 powi (?e + 53) = of_int \<bar>?m\<bar> * (2::real) powi ?e"
      unfolding True by (simp add: power_int_add)
    also have "\<dots> < 2 powi 1024" using assms(2) unfolding val by simp
    finally have "?e + 53 < 1024" by (rule powi_two_less_cancel)
    then have e: "?e + 1 \<le> 971" by simp
    define m' where "m' = (if 0 \<le> ?m then (2::int) ^ 52 else - (2 ^ 52))"
    have m2: "?m = 2 * m'" using True by (auto simp: m'_def)
    have "rnd_val x = of_int ?m * 2 powi ?e" by (simp add: rnd_val_def)
    also have "\<dots> = of_int m' * (2 * 2 powi ?e)" unfolding m2 by simp
    also have "2 * (2::real) powi ?e = 2 powi (?e + 1)" by (simp add: power_int_add)
    finally have "rnd_val x = of_int m' * 2 powi (?e + 1)" .
    moreover have "\<bar>m'\<bar> < 2 ^ 53" by (simp add: m'_def)
    moreover have "- 1074 \<le> ?e + 1" using ulp_exp_ge [of x] by simp
    ultimately show ?thesis using e by blast
  next
    case False
    then have mlt: "\<bar>?m\<bar> < 2 ^ 53" using mle by simp
    have e: "?e \<le> 971"
    proof (rule ccontr)
      assume "\<not> ?e \<le> 971"
      then have big: "972 \<le> ?e" by simp
      then have ek: "?e = ?k - 52" unfolding ulp_exp_def by linarith
      have "(2::real) powi 52 = 2 powi ?k / 2 powi ?e"
        unfolding powi_two_diff ek by simp
      also have "\<dots> \<le> \<bar>x\<bar> / 2 powi ?e"
        using floor_log2_bounds(1) [OF x0] by (intro divide_right_mono) simp_all
      finally have "of_int (2 ^ 52) \<le> \<bar>x / 2 powi ?e\<bar>" unfolding q by simp
      then have "2 ^ 52 \<le> \<bar>?m\<bar>" by (rule rhe_abs_ge) simp
      then have "(2::real) ^ 52 \<le> of_int \<bar>?m\<bar>" by (metis of_int_le_iff of_int_numeral of_int_power)
      moreover have "(2::real) powi 972 \<le> 2 powi ?e"
        using big by (intro power_int_increasing) simp_all
      ultimately have "(2::real) ^ 52 * 2 powi 972 \<le> of_int \<bar>?m\<bar> * 2 powi ?e"
        by (intro mult_mono) simp_all
      then have "(2::real) ^ 1024 \<le> \<bar>rnd_val x\<bar>" unfolding val by simp
      with assms(2) show False by simp
    qed
    have "rnd_val x = of_int ?m * 2 powi ?e" by (simp add: rnd_val_def)
    then show ?thesis using mlt e ulp_exp_ge [of x] by blast
  qed
qed

lemma round64_idem:
  assumes "round64 x = Fin y"
  shows "round64 y = Fin y"
proof (cases "x = 0")
  case True
  then show ?thesis using assms by (auto simp: round64_def)
next
  case False
  show ?thesis
  proof (cases "y = 0")
    case True
    then show ?thesis by (simp add: round64_def)
  next
    case y: False
    from assms False y have lt: "\<bar>rnd_val x\<bar> < 2 ^ 1024" and yv: "y = rnd_val x"
      by (auto simp: round64_def inf_of_def zero_of_def split: if_splits)
    from rnd_val_repr [OF False lt] obtain m e
      where "rnd_val x = of_int m * 2 powi e" "\<bar>m\<bar> < 2 ^ 53" "- 1074 \<le> e" "e \<le> 971" by blast
    then show ?thesis unfolding yv by (intro round64_exact)
  qed
qed

lemma rnd_val_nonneg:
  assumes "0 \<le> x"
  shows "0 \<le> rnd_val x"
proof -
  have "0 \<le> x / 2 powi ulp_exp x" using assms by simp
  then have "0 \<le> rhe (x / 2 powi ulp_exp x)" by (intro rhe_ge) simp
  then show ?thesis by (simp add: rnd_val_def)
qed

lemma ulp_exp_mono:
  assumes "0 < x" and "x \<le> y"
  shows "ulp_exp x \<le> ulp_exp y"
proof -
  have "log 2 x \<le> log 2 y" using assms by simp
  then have "\<lfloor>log 2 x\<rfloor> \<le> \<lfloor>log 2 y\<rfloor>" by (rule floor_mono)
  then show ?thesis using assms by (simp add: ulp_exp_def)
qed

lemma rnd_val_mono:
  assumes "0 < x" and "x \<le> y"
  shows "rnd_val x \<le> rnd_val y"
proof (cases "ulp_exp x = ulp_exp y")
  case True
  have "x / 2 powi ulp_exp y \<le> y / 2 powi ulp_exp y"
    using assms(2) by (intro divide_right_mono) simp_all
  then have "rhe (x / 2 powi ulp_exp y) \<le> rhe (y / 2 powi ulp_exp y)" by (rule rhe_mono)
  then show ?thesis unfolding rnd_val_def True by (intro mult_right_mono) simp_all
next
  case False
  let ?ex = "ulp_exp x" and ?ey = "ulp_exp y"
  let ?kx = "\<lfloor>log 2 x\<rfloor>" and ?ky = "\<lfloor>log 2 y\<rfloor>"
  have y0: "0 < y" using assms by simp
  have lt: "?ex < ?ey" using ulp_exp_mono [OF assms] False by simp
  have "\<bar>y\<bar> = y" using y0 by simp
  then have "?ey = max (?ky - 52) (- 1074)" by (simp add: ulp_exp_def)
  then have ey: "?ey = ?ky - 52" using ulp_exp_ge [of x] lt by linarith
  have "\<bar>x\<bar> = x" using assms(1) by simp
  then have "?ex = max (?kx - 52) (- 1074)" by (simp add: ulp_exp_def)
  then have "?kx - 52 \<le> ?ex" by linarith
  then have kxy: "?kx + 1 \<le> ?ky" using lt ey by simp
  have d: "0 \<le> ?ky - ?ex" using lt ey by simp
  have "x < 2 powi (?kx + 1)" using floor_log2_bounds(2) [OF assms(1)] .
  also have "\<dots> \<le> 2 powi ?ky" using kxy by (intro power_int_increasing) simp_all
  finally have xk: "x \<le> 2 powi ?ky" by simp
  have "x / 2 powi ?ex \<le> 2 powi ?ky / 2 powi ?ex"
    using xk by (intro divide_right_mono) simp_all
  also have "\<dots> = 2 powi (?ky - ?ex)" by (rule powi_two_diff)
  also have "\<dots> = of_int (2 ^ nat (?ky - ?ex))" using d by (rule powi_two_nonneg_int)
  finally have "rhe (x / 2 powi ?ex) \<le> 2 ^ nat (?ky - ?ex)" by (rule rhe_le)
  then have "of_int (rhe (x / 2 powi ?ex)) \<le> (of_int (2 ^ nat (?ky - ?ex)) :: real)"
    by (simp only: of_int_le_iff)
  also have "\<dots> = 2 powi (?ky - ?ex)" using d by (rule powi_two_nonneg_int [symmetric])
  finally have "rnd_val x \<le> 2 powi (?ky - ?ex) * 2 powi ?ex"
    unfolding rnd_val_def by (intro mult_right_mono) simp_all
  also have "\<dots> = 2 powi ?ky" by (simp flip: power_int_add)
  finally have left: "rnd_val x \<le> 2 powi ?ky" .
  have "(2::real) powi 52 = 2 powi ?ky / 2 powi ?ey" unfolding powi_two_diff ey by simp
  also have "\<dots> \<le> y / 2 powi ?ey"
    using floor_log2_bounds(1) [OF y0] by (intro divide_right_mono) simp_all
  finally have "of_int (2 ^ 52) \<le> y / 2 powi ?ey" by simp
  then have "2 ^ 52 \<le> rhe (y / 2 powi ?ey)" by (rule rhe_ge)
  then have "(of_int (2 ^ 52) :: real) \<le> of_int (rhe (y / 2 powi ?ey))"
    by (simp only: of_int_le_iff)
  then have "of_int (2 ^ 52) * 2 powi ?ey \<le> rnd_val y"
    unfolding rnd_val_def by (intro mult_right_mono) simp_all
  moreover have "of_int (2 ^ 52) * (2::real) powi ?ey = 2 powi ?ky"
    unfolding ey by (simp add: power_int_diff)
  ultimately have "2 powi ?ky \<le> rnd_val y" by simp
  with left show ?thesis by linarith
qed

subsection \<open>The operations\<close>

lemma round64_of_int:
  assumes "\<bar>z\<bar> < 2 ^ 53"
  shows "round64 (of_int z) = Fin (of_int z)"
  using round64_exact [of "of_int z" z 0] assms by simp

lemma round64_numeral:
  assumes "(numeral n :: int) < 2 ^ 53"
  shows "round64 (numeral n) = Fin (numeral n)"
  using round64_of_int [of "numeral n"] assms by simp


lemma round64_one: "round64 1 = Fin 1"
  using round64_of_int [of 1] by simp

lemma round64_zero: "round64 0 = Fin 0"
  by (simp add: round64_def)

lemma round64_dyadic:
  assumes "\<bar>z\<bar> < 2 ^ 53" and "k \<le> 1074"
  shows "round64 (of_int z / 2 ^ k) = Fin (of_int z / 2 ^ k)"
proof -
  have "of_int z / 2 ^ k = of_int z * (2::real) powi (- int k)"
    by (simp add: power_int_minus divide_inverse)
  then show ?thesis using assms by (intro round64_exact [of _ z "- int k"]) simp_all
qed

lemma round64_eval:
  assumes "2 powi k \<le> \<bar>x\<bar>" and "\<bar>x\<bar> < 2 powi (k + 1)"
    and "e = max (k - 52) (- 1074)"
    and "of_int n - 1 / 2 < x / 2 powi e" and "x / 2 powi e < of_int n + 1 / 2"
    and "n \<noteq> 0" and "\<bar>of_int n * 2 powi e\<bar> < (2::real) ^ 1024"
  shows "round64 x = Fin (of_int n * 2 powi e)"
proof -
  have "0 < (2::real) powi k" by simp
  then have "0 < \<bar>x\<bar>" using assms(1) by linarith
  then have "x \<noteq> 0" by simp
  then show ?thesis
    using rnd_val_eval [OF assms(1-5)] assms(6,7) by (simp add: round64_def)
qed

lemma round64_overflow:
  assumes "2 ^ 1024 \<le> \<bar>x\<bar>"
  shows "round64 x = inf_of (x < 0)"
proof -
  let ?k = "\<lfloor>log 2 \<bar>x\<bar>\<rfloor>" and ?e = "ulp_exp x"
  have x0: "0 < \<bar>x\<bar>" using assms by (smt (verit) zero_less_power)
  then have xn: "x \<noteq> 0" by simp
  have "(2::real) powi 1024 \<le> \<bar>x\<bar>" using assms by simp
  also have "\<dots> < 2 powi (?k + 1)" by (rule floor_log2_bounds(2) [OF x0])
  finally have "1024 < ?k + 1" by (rule powi_two_less_cancel)
  then have k: "1024 \<le> ?k" by simp
  then have ek: "?e = ?k - 52" unfolding ulp_exp_def by linarith
  have "(2::real) powi 52 = 2 powi ?k / 2 powi ?e" unfolding powi_two_diff ek by simp
  also have "\<dots> \<le> \<bar>x\<bar> / 2 powi ?e"
    using floor_log2_bounds(1) [OF x0] by (intro divide_right_mono) simp_all
  finally have "of_int (2 ^ 52) \<le> \<bar>x / 2 powi ?e\<bar>" by simp
  then have "2 ^ 52 \<le> \<bar>rhe (x / 2 powi ?e)\<bar>" by (rule rhe_abs_ge) simp
  then have "(2::real) ^ 52 \<le> of_int \<bar>rhe (x / 2 powi ?e)\<bar>"
    by (metis of_int_le_iff of_int_numeral of_int_power)
  moreover have "(2::real) powi 972 \<le> 2 powi ?e"
    using k ek by (intro power_int_increasing) simp_all
  ultimately have "(2::real) ^ 52 * 2 powi 972 \<le> of_int \<bar>rhe (x / 2 powi ?e)\<bar> * 2 powi ?e"
    by (intro mult_mono) simp_all
  then have "(2::real) ^ 1024 \<le> \<bar>rnd_val x\<bar>" unfolding rnd_val_abs by simp
  then show ?thesis using xn by (simp add: round64_def)
qed

lemma round64_underflow:
  assumes "x \<noteq> 0" and "\<bar>x\<bar> < 2 powi (- 1075)"
  shows "round64 x = zero_of (x < 0)"
proof -
  let ?k = "\<lfloor>log 2 \<bar>x\<bar>\<rfloor>"
  have x0: "0 < \<bar>x\<bar>" using assms(1) by simp
  have "2 powi ?k \<le> \<bar>x\<bar>" by (rule floor_log2_bounds(1) [OF x0])
  also have "\<dots> < 2 powi (- 1075)" by (rule assms(2))
  finally have "?k < - 1075" by (rule powi_two_less_cancel)
  then have e: "ulp_exp x = - 1074" unfolding ulp_exp_def by linarith
  have "\<bar>x / 2 powi (- 1074)\<bar> = \<bar>x\<bar> / 2 powi (- 1074)" by simp
  also have "\<dots> < 2 powi (- 1075) / 2 powi (- 1074)"
    using assms(2) by (intro divide_strict_right_mono) simp_all
  also have "\<dots> = 1 / 2" unfolding powi_two_diff by simp
  finally have "\<bar>x / 2 powi (- 1074)\<bar> < 1 / 2" .
  then have "rhe (x / 2 powi (- 1074)) = 0" by (intro rhe_eval) (simp_all add: abs_less_iff)
  then have "rnd_val x = 0" unfolding rnd_val_def e by simp
  then show ?thesis using assms(1) by (simp add: round64_def)
qed

lemma round64_not_neg:
  assumes "0 \<le> x"
  shows "not_neg (round64 x)"
  using assms rnd_val_nonneg [OF assms]
  by (auto simp: round64_def inf_of_def zero_of_def)


lemma is_double_round64: "is_double (round64 x)"
  by (cases "round64 x") (simp_all add: round64_idem)

lemma is_double_zero_of: "is_double (zero_of b)"
  by (simp add: zero_of_def round64_zero)

lemma is_double_inf_of: "is_double (inf_of b)"
  by (simp add: inf_of_def)

lemma is_double_dmul: "is_double (dmul x y)"
  by (simp add: dmul_def is_double_round64 is_double_zero_of is_double_inf_of)

lemma is_double_ddiv: "is_double (ddiv x y)"
  by (simp add: ddiv_def is_double_round64 is_double_zero_of is_double_inf_of)

lemma dmul_one_right:
  assumes "is_double x"
  shows "dmul x (Fin 1) = x"
  using assms by (cases x) (auto simp: dmul_def zero_of_def inf_of_def)

lemma dpow_one_base: "dpow (Fin 1) y = Fin 1"
  by (simp add: dpow_def)

lemma dlt_zero_not_dge: "dlt x (Fin 0) \<Longrightarrow> \<not> dge x (Fin 0)"
  by (simp add: dge_def)


lemma dmul_Fin: "a \<noteq> 0 \<Longrightarrow> b \<noteq> 0 \<Longrightarrow> dmul (Fin a) (Fin b) = round64 (a * b)"
  by (simp add: dmul_def)

lemma ddiv_Fin: "a \<noteq> 0 \<Longrightarrow> b \<noteq> 0 \<Longrightarrow> ddiv (Fin a) (Fin b) = round64 (a / b)"
  by (simp add: ddiv_def)

lemma dadd_Fin: "dadd (Fin a) (Fin b) = round64 (a + b)"
  by (simp add: dadd_def)

lemma dpow_Fin: "0 < a \<Longrightarrow> b \<noteq> 0 \<Longrightarrow> dpow (Fin a) (Fin b) = round64 (a powr b)"
  by (simp add: dpow_def round64_one)

lemma dpow_zero_exp: "dpow x (Fin 0) = Fin 1" "dpow x NZero = Fin 1"
  by (simp_all add: dpow_def)

lemma round64_hundredth: "round64 (1 / 100) = Fin hundredth"
proof -
  have "round64 (1 / 100) = Fin (of_int 5764607523034235 * 2 powi (- 59))"
    by (rule round64_eval [where k = "- 7"]) simp_all
  then show ?thesis by (simp add: hundredth_def)
qed

lemma round64_fifty_hundredths: "round64 (50 * hundredth) = Fin (1 / 2)"
proof -
  have "round64 (50 * hundredth) = Fin (of_int 4503599627370496 * 2 powi (- 53))"
    by (rule round64_eval [where k = "- 1"]) (simp_all add: hundredth_def)
  then show ?thesis by simp
qed

lemma round64_half: "round64 (1 / 2) = Fin (1 / 2)"
  using round64_dyadic [of 1 1] by simp

lemmas dbl_eval = dmul_Fin ddiv_Fin dadd_Fin dpow_Fin dpow_zero_exp dpow_one_base
  round64_numeral round64_one round64_zero round64_half dsub_def

lemma hundredth_nz: "hundredth \<noteq> 0" by (simp add: hundredth_def)

subsection \<open>Rounding near one\<close>

lemma rhe_err: "\<bar>of_int (rhe r) - r\<bar> \<le> 1 / 2"
proof -
  have "of_int \<lfloor>r\<rfloor> \<le> r" and "r < of_int \<lfloor>r\<rfloor> + 1" by linarith+
  then show ?thesis by (auto simp: rhe_def Let_def)
qed

lemma ulp_exp_below_one:
  assumes "0 < x" and "x < 1"
  shows "ulp_exp x \<le> - 53"
proof -
  have ax: "\<bar>x\<bar> = x" using assms by simp
  have "log 2 x < 0" using assms by simp
  then have "\<lfloor>log 2 x\<rfloor> < 0" by linarith
  then show ?thesis unfolding ulp_exp_def ax by linarith
qed

lemma rnd_val_err_below_one:
  assumes "0 < x" and "x < 1"
  shows "\<bar>rnd_val x - x\<bar> \<le> 2 powi (- 54)"
proof -
  define e where "e = ulp_exp x"
  define r where "r = x / 2 powi e"
  have e: "e \<le> - 53" unfolding e_def by (rule ulp_exp_below_one [OF assms])
  have x: "x = r * 2 powi e" by (simp add: r_def)
  have "rnd_val x - x = (of_int (rhe r) - r) * 2 powi e"
    unfolding rnd_val_def e_def [symmetric] r_def [symmetric] using x by (simp add: algebra_simps)
  then have "\<bar>rnd_val x - x\<bar> = \<bar>of_int (rhe r) - r\<bar> * 2 powi e"
    by (simp add: abs_mult)
  also have "\<dots> \<le> (1 / 2) * 2 powi e"
    by (intro mult_right_mono rhe_err) simp
  also have "\<dots> \<le> (1 / 2) * 2 powi (- 53)"
    using e by (intro mult_left_mono power_int_increasing) simp_all
  also have "\<dots> = 2 powi (- 54)" by (simp add: power_int_minus)
  finally show ?thesis .
qed

lemma rnd_val_above_one: "rnd_val (1 + 2 powi (- 54)) = 1"
proof -
  have "rnd_val (1 + 2 powi (- 54)) = of_int (2 ^ 52) * 2 powi (- 52)"
    by (rule rnd_val_eval [where k = 0]) (simp_all add: power_int_minus)
  then show ?thesis by (simp add: power_int_minus)
qed

lemma rhe_tie_below_one: "rhe (9007199254740992 - 1 / 2) = 9007199254740992"
proof -
  have "\<lfloor>(9007199254740992::real) - 1 / 2\<rfloor> = 9007199254740991"
    by (intro floor_unique) simp_all
  then show ?thesis by (simp add: rhe_def Let_def)
qed

lemma rnd_val_below_one: "rnd_val (1 - 2 powi (- 54)) = 1"
proof -
  have u: "ulp_exp (1 - 2 powi (- 54)) = max (- 1 - 52) (- 1074)"
    by (rule ulp_exp_eq) (simp_all add: power_int_minus)
  have "(1 - 2 powi (- 54)) / 2 powi (- 53) = (9007199254740992::real) - 1 / 2"
    by (simp add: power_int_minus field_simps)
  then show ?thesis
    unfolding rnd_val_def u using rhe_tie_below_one by (simp add: power_int_minus)
qed

lemma round64_near_one:
  assumes "\<bar>d\<bar> \<le> 2 powi (- 54)"
  shows "round64 (1 + d) = Fin 1"
proof -
  have b: "(2::real) powi (- 54) < 1 / 2" by (simp add: power_int_minus)
  have lo: "1 - 2 powi (- 54) \<le> 1 + d" and hi: "1 + d \<le> 1 + 2 powi (- 54)"
    using assms by (simp_all add: abs_le_iff)
  have pos: "0 < 1 - (2::real) powi (- 54)" using b by linarith
  have pos': "0 < 1 + d" using lo pos by linarith
  have "rnd_val (1 - 2 powi (- 54)) \<le> rnd_val (1 + d)"
    by (rule rnd_val_mono [OF pos lo])
  moreover have "rnd_val (1 + d) \<le> rnd_val (1 + 2 powi (- 54))"
    by (rule rnd_val_mono [OF pos' hi])
  ultimately have "rnd_val (1 + d) = 1"
    using rnd_val_above_one rnd_val_below_one by simp
  then show ?thesis using pos' by (simp add: round64_def)
qed

lemma round64_below_one:
  assumes "0 < x" and "x < 1"
  shows "round64 x = Fin (rnd_val x)"
proof -
  have "\<bar>rnd_val x\<bar> \<le> \<bar>rnd_val x - x\<bar> + \<bar>x\<bar>" by linarith
  also have "\<dots> \<le> 2 powi (- 54) + 1"
    using rnd_val_err_below_one [OF assms] assms by linarith
  also have "\<dots> < 2 ^ 1024" by (simp add: power_int_minus)
  finally have "\<bar>rnd_val x\<bar> < 2 ^ 1024" .
  then show ?thesis using assms by (simp add: round64_def zero_of_def)
qed

lemma share_sum_unit_interval:
  assumes "0 \<le> a" and "a \<le> 1"
  shows "dadd (Fin a) (dsub (Fin 1) (Fin a)) = Fin 1"
proof (cases "a = 0 \<or> a = 1")
  case True
  then show ?thesis by (auto simp: dsub_def dadd_def round64_one round64_zero)
next
  case False
  then have a: "0 < a" "a < 1" using assms by auto
  then have x: "0 < 1 - a" "1 - a < 1" by simp_all
  have s: "dsub (Fin 1) (Fin a) = Fin (rnd_val (1 - a))"
    using a round64_below_one [OF x] by (simp add: dsub_def dadd_def)
  have "a + rnd_val (1 - a) = 1 + (rnd_val (1 - a) - (1 - a))" by simp
  then have "round64 (a + rnd_val (1 - a)) = Fin 1"
    using round64_near_one [OF rnd_val_err_below_one [OF x]] by presburger
  then show ?thesis unfolding s by (simp add: dadd_def)
qed

subsection \<open>Overflow and underflow\<close>

lemma round64_overflow_pos: "2 ^ 1024 \<le> x \<Longrightarrow> round64 x = PInf"
  using round64_overflow [of x] by (simp add: inf_of_def abs_if split: if_splits)

lemma round64_pow_underflow:
  assumes "0 < a" and "a powr b < 2 powi (- 1075)"
  shows "round64 (a powr b) = Fin 0"
proof -
  have "a powr b \<noteq> 0" using assms(1) by simp
  moreover have "\<bar>a powr b\<bar> < 2 powi (- 1075)" using assms(2) by simp
  ultimately show ?thesis using round64_underflow [of "a powr b"] by (simp add: zero_of_def)
qed

lemma two_powr_underflow: "(2::real) powr (- 2000) < 2 powi (- 1075)"
proof -
  have "(2::real) powr (- 2000) = 2 powr (of_int (- 2000))" by simp
  also have "\<dots> = 2 powi (- 2000)" by (rule powr_powi_two)
  also have "\<dots> < 2 powi (- 1075)" by (intro power_int_strict_increasing) simp_all
  finally show ?thesis .
qed


lemma dpow_two_overflow: "dpow (Fin 2) (Fin 2000) = PInf"
proof -
  have "(2::real) powr 2000 = 2 powr (of_int 2000)" by simp
  also have "\<dots> = 2 powi 2000" by (rule powr_powi_two)
  finally have "(2::real) powr 2000 = 2 ^ 2000" by simp
  moreover have "(2::real) ^ 1024 \<le> 2 ^ 2000" by (intro power_increasing) simp_all
  ultimately have "round64 (2 powr 2000) = PInf" by (intro round64_overflow_pos) simp
  then show ?thesis by (simp add: dpow_def)
qed

lemma dpow_gdp_steep: "dpow (Fin 121) (Fin (- 2000)) = Fin 0"
proof -
  have "(121::real) powr (- 2000) \<le> 2 powr (- 2000)" by (intro powr_mono2') simp_all
  then have "(121::real) powr (- 2000) < 2 powi (- 1075)" using two_powr_underflow by linarith
  then show ?thesis
    using round64_pow_underflow [of 121 "- 2000"] by (simp add: dpow_def)
qed



subsection \<open>Sign and order\<close>

lemma pos_not_neg: "dlt (Fin 0) x \<Longrightarrow> not_neg x"
  by (cases x) (auto simp: dlt_def)

lemma not_neg_not_lt: "not_neg x \<Longrightarrow> \<not> dlt x (Fin 0)"
  by (cases x) (auto simp: dlt_def)

lemma not_neg_signbit: "not_neg x \<Longrightarrow> \<not> signbit x"
  by (cases x) auto

lemma not_neg_val: "not_neg x \<Longrightarrow> 0 \<le> val x"
  by (cases x) auto

lemma not_neg_zero_of: "not_neg (zero_of False)" and not_neg_inf_of: "not_neg (inf_of False)"
  by (simp_all add: zero_of_def inf_of_def)

lemma not_neg_dmul:
  assumes "not_neg x" and "not_neg y"
  shows "not_neg (dmul x y)"
  using assms not_neg_signbit [OF assms(1)] not_neg_signbit [OF assms(2)]
    not_neg_val [OF assms(1)] not_neg_val [OF assms(2)]
  by (simp add: dmul_def not_neg_zero_of not_neg_inf_of round64_not_neg)

lemma not_neg_ddiv:
  assumes "not_neg x" and "not_neg y"
  shows "not_neg (ddiv x y)"
  using assms not_neg_signbit [OF assms(1)] not_neg_signbit [OF assms(2)]
    not_neg_val [OF assms(1)] not_neg_val [OF assms(2)]
  by (simp add: ddiv_def not_neg_zero_of not_neg_inf_of round64_not_neg)

lemma not_neg_dpow:
  assumes "not_neg x"
  shows "not_neg (dpow x y)"
proof (cases x)
  case (Fin a)
  then have "0 \<le> a" using assms by simp
  then show ?thesis using Fin
    by (auto simp: dpow_def inf_of_def round64_not_neg)
next
  case NZero
  then show ?thesis using assms by simp
next
  case PInf
  then show ?thesis by (auto simp: dpow_def)
next
  case NInf
  then show ?thesis using assms by simp
next
  case NaN
  then show ?thesis by (auto simp: dpow_def)
qed





subsection \<open>Zeros, infinities and NaN\<close>

lemma ddiv_by_zero_not_finite: "is_zero y \<Longrightarrow> \<not> is_finite (ddiv x y)"
  by (cases x; cases y) (auto simp: ddiv_def inf_of_def)

lemma dmul_not_finite_right: "\<not> is_finite y \<Longrightarrow> \<not> is_finite (dmul x y)"
  by (cases x; cases y) (auto simp: dmul_def inf_of_def)

lemma ddiv_not_finite_left: "\<not> is_finite x \<Longrightarrow> \<not> is_finite (ddiv x y)"
  by (cases x; cases y) (auto simp: ddiv_def inf_of_def)

lemma ddiv_not_finite_right: "\<not> is_finite y \<Longrightarrow> is_zero (ddiv x y) \<or> is_nan (ddiv x y)"
  by (cases x; cases y) (auto simp: ddiv_def zero_of_def)

lemma dmul_zero_left: "0 \<le> b \<Longrightarrow> dmul (Fin 0) (Fin b) = Fin 0"
  and dmul_zero_right: "0 \<le> a \<Longrightarrow> dmul (Fin a) (Fin 0) = Fin 0"
  by (simp_all add: dmul_def zero_of_def)

lemma dsub_one_one: "dsub (Fin 1) (Fin 1) = Fin 0"
  by (simp add: dsub_def dadd_def round64_zero)

lemma zero_or_nan_dmul_left:
  assumes "is_zero x \<or> is_nan x"
  shows "is_zero (dmul x y) \<or> is_nan (dmul x y)"
  using assms by (cases x; cases y) (auto simp: dmul_def zero_of_def)

lemma zero_or_nan_dmul_right:
  assumes "is_zero y \<or> is_nan y"
  shows "is_zero (dmul x y) \<or> is_nan (dmul x y)"
  using assms by (cases x; cases y) (auto simp: dmul_def zero_of_def)

lemma zero_or_nan_ddiv_left:
  assumes "is_zero x \<or> is_nan x"
  shows "is_zero (ddiv x y) \<or> is_nan (ddiv x y)"
  using assms by (cases x; cases y) (auto simp: ddiv_def zero_of_def)

lemma dadd_zero_or_nan:
  assumes "is_double x" and "is_zero y \<or> is_nan y"
  shows "is_nan (dadd x y) \<or> dadd x y = x \<or> (is_zero (dadd x y) \<and> is_zero x)"
  using assms by (cases x; cases y) (auto simp: dadd_def round64_zero)

lemma dmul_same_or_zero:
  assumes "is_nan u \<or> u = x \<or> (is_zero u \<and> is_zero x)"
  shows "is_nan (dmul u q) \<or> dmul u q = dmul x q \<or> (is_zero (dmul u q) \<and> is_zero (dmul x q))"
  using assms by (cases x; cases u; cases q) (auto simp: dmul_def zero_of_def)

subsection \<open>Particular values\<close>









lemma four_powr_half: "(4::real) powr (1 / 2) = 2"
  by (simp add: powr_half_sqrt)

lemma round64_third: "round64 (1 / 3) = Fin third"
proof -
  have "round64 (1 / 3) = Fin (of_int 6004799503160661 * 2 powi (- 54))"
    by (rule round64_eval [where k = "- 2"]) simp_all
  then show ?thesis by (simp add: third_def)
qed

lemma round64_hundred_thirds: "round64 (100 * third) = Fin tran_third_scaler"
proof -
  have "round64 (100 * third) = Fin (of_int 4691249611844266 * 2 powi (- 47))"
    by (rule round64_eval [where k = 5]) (simp_all add: third_def)
  then show ?thesis by (simp add: tran_third_scaler_def)
qed

lemma round64_hundred_by_three: "round64 (100 / 3) = Fin building_third_scaler"
proof -
  have "round64 (100 / 3) = Fin (of_int 4691249611844267 * 2 powi (- 47))"
    by (rule round64_eval [where k = 5]) simp_all
  then show ?thesis by (simp add: building_third_scaler_def)
qed

lemma round64_tran_third_scaler: "round64 tran_third_scaler = Fin tran_third_scaler"
  using round64_dyadic [of 4691249611844266 47] by (simp add: tran_third_scaler_def)

lemma round64_building_third_scaler: "round64 building_third_scaler = Fin building_third_scaler"
  using round64_dyadic [of 4691249611844267 47] by (simp add: building_third_scaler_def)

lemma round64_tran_third_scaler4: "round64 (tran_third_scaler * 4) = Fin (tran_third_scaler * 4)"
  using round64_dyadic [of 4691249611844266 45] by (simp add: tran_third_scaler_def)

lemma round64_building_third_scaler4:
  "round64 (building_third_scaler * 4) = Fin (building_third_scaler * 4)"
  using round64_dyadic [of 4691249611844267 45] by (simp add: building_third_scaler_def)

lemma third_nz: "third \<noteq> 0" "tran_third_scaler \<noteq> 0" "building_third_scaler \<noteq> 0"
  by (simp_all add: third_def tran_third_scaler_def building_third_scaler_def)

lemma round64_big_share: "round64 (- 1152921504606846975) = Fin (- 1152921504606846976)"
proof -
  have "round64 (- 1152921504606846975) = Fin (of_int (- 9007199254740992) * 2 powi 7)"
    by (rule round64_eval [where k = 59]) simp_all
  then show ?thesis by simp
qed

lemma share_sum_fails: "dadd (Fin (2 ^ 60)) (dsub (Fin 1) (Fin (2 ^ 60))) = Fin 0"
  by (simp add: dsub_def dadd_def round64_big_share round64_zero)

subsection \<open>What the two functions compute\<close>

text \<open>
  What \<open>TranSector::aggdemand\<close> writes in a period \<open>p >= 2\<close>: both price ratios are
  \<open>sectorprice[p]/sectorprice[p-1]\<close>; \<open>servicePreTechChange[p]\<close> is the sum of the
  licensed and the not-licensed term times \<open>gdpAggregate/gdpPerCapita\<close> when the sector
  is per-capita based, and the licensed term alone otherwise; \<open>service[p]\<close> is that
  value divided by \<open>(1 + aeei[p])^timestep(p)\<close>; \<open>output[p]\<close> is \<open>service[p]\<close>.
\<close>

lemma tran_projection_values:
  assumes "2 \<le> p"
    and "p < length (service s)" and "p < length (servicePreTechChange s)"
    and "p < length (output_vec s)"
  shows "let s' = TranSector_aggdemand modeltime gdp p s;
             gdpPerCapita = getBestScaledGDPperCap gdp p;
             gdpAggregate = getApproxScaledGDP gdp p;
             ratio = ddiv (sectorprice s ! p) (sectorprice s ! (p - 1))
         in priceRatio s' = ratio \<and> priceRatioNotLic s' = ratio
          \<and> servicePreTechChange s' ! p =
              (if perCapitaBased s
               then dmul (dadd (dmul (dmul (baseScaler s) (dpow ratio (pElasticity s ! p)))
                                     (dpow gdpPerCapita (iElasticity s ! p)))
                               (dmul (dmul (baseScalerNotLic s) (dpow ratio (pElasticity s ! p)))
                                     (dpow gdpPerCapita (iElasticity s ! p))))
                         (ddiv gdpAggregate gdpPerCapita)
               else dmul (dmul (baseScaler s) (dpow ratio (pElasticity s ! p)))
                         (dpow gdpAggregate (iElasticity s ! p)))
          \<and> service s' ! p =
              ddiv (servicePreTechChange s' ! p)
                   (dpow (dadd (Fin 1) (aeei s ! p)) (gettimestep modeltime p))
          \<and> output_vec s' ! p = service s' ! p"
  using assms
  by (simp add: TranSector_aggdemand_def Let_def)

lemma building_projection_values:
  assumes "\<not> dge (baseService s ! p) (Fin 0)"
    and "p < length (service s)" and "p < length (servicePreTechChange s)"
  shows "service (BuildingDemandSector_aggdemand gdp p s) ! p =
          (if perCapitaBased s
           then dmul (dmul (dmul (baseScaler s)
                                 (dpow (building_priceRatio s p) (pElasticity s ! p)))
                           (dpow (getBestScaledGDPperCap gdp p) (iElasticity s ! p)))
                     (ddiv (getApproxScaledGDP gdp p) (getBestScaledGDPperCap gdp p))
           else dmul (dmul (baseScaler s)
                           (dpow (building_priceRatio s p) (pElasticity s ! p)))
                     (dpow (getApproxScaledGDP gdp p) (iElasticity s ! p)))"
  using assms
  by (simp add: BuildingDemandSector_aggdemand_def Let_def)

lemma tran_fit_not_licensed:
  assumes "c = 0 \<or> c = 1"
  shows "baseScalerNotLic (TranSector_aggdemand modeltime gdp c t) =
          (if perCapitaBased t
           then ddiv (dmul (dmul (service t ! c) (dsub (Fin 1) (percentLicensed t ! c)))
                           (dpow (getBestScaledGDPperCap gdp c) (dneg (iElasticity t ! c))))
                     (ddiv (getApproxScaledGDP gdp c) (getBestScaledGDPperCap gdp c))
           else dmul (dmul (dmul (service t ! c) (dsub (Fin 1) (percentLicensed t ! c)))
                           (dpow (Fin 1) (dneg (pElasticity t ! c))))
                     (dpow (getApproxScaledGDP gdp c) (dneg (iElasticity t ! c))))"
  using assms by (auto simp add: TranSector_aggdemand_def Let_def)

lemma tran_fit_not_licensed_share_one:
  assumes "c = 0 \<or> c = 1" and "percentLicensed t ! c = Fin 1"
  shows "is_zero (baseScalerNotLic (TranSector_aggdemand modeltime gdp c t))
       \<or> is_nan (baseScalerNotLic (TranSector_aggdemand modeltime gdp c t))"
proof -
  have z: "is_zero (dmul (service t ! c) (dsub (Fin 1) (percentLicensed t ! c)))
         \<or> is_nan (dmul (service t ! c) (dsub (Fin 1) (percentLicensed t ! c)))"
    unfolding assms(2) dsub_one_one by (rule zero_or_nan_dmul_right) simp
  show ?thesis
  proof (cases "perCapitaBased t")
    case True
    show ?thesis
      unfolding tran_fit_not_licensed [OF assms(1)] using True
      by (simp add: zero_or_nan_ddiv_left zero_or_nan_dmul_left z)
  next
    case False
    show ?thesis
      unfolding tran_fit_not_licensed [OF assms(1)] using False
      by (simp add: zero_or_nan_dmul_left z)
  qed
qed

subsection \<open>The examples evaluated\<close>

lemma unset_scaler_clash_values:
  "service (BuildingDemandSector_aggdemand gdp_ex 2
     (BuildingDemandSector_initCalc 2 (\<lambda>k. Fin 0) building_clash_ex)) ! 2 = NaN"
  by (simp add: building_clash_ex_def building_ex_def gdp_ex_def
        BuildingDemandSector_aggdemand_def BuildingDemandSector_initCalc_def
        building_priceRatio_def Let_def dge_def dlt_def ddiv_Fin round64_numeral
        dpow_two_overflow dpow_gdp_steep dmul_def inf_of_def)






lemma tran_third_fit:
  "baseScaler (TranSector_aggdemand modeltime_ex gdp_third_ex 1 tran_third_ex)
     = Fin tran_third_scaler"
  by (simp add: tran_third_ex_def tran_ex_def gdp_third_ex_def TranSector_aggdemand_def Let_def
        dbl_eval powr_minus_divide round64_third round64_hundred_thirds third_nz)

lemma building_third_fit:
  "baseScaler (BuildingDemandSector_aggdemand gdp_third_ex 1 building_third_ex)
     = Fin building_third_scaler"
  by (simp add: building_third_ex_def building_ex_def gdp_third_ex_def
        BuildingDemandSector_aggdemand_def building_priceRatio_def Let_def
        dge_def dlt_def dbl_eval round64_hundred_by_three)

lemma tran_third_demand:
  "servicePreTechChange
     (TranSector_aggdemand modeltime_ex gdp_third_ex 2
       (TranSector_aggdemand modeltime_ex gdp_third_ex 1 tran_third_ex)) ! 2
     = Fin (tran_third_scaler * 4)"
  by (simp add: tran_third_ex_def tran_ex_def gdp_third_ex_def TranSector_aggdemand_def Let_def
        dbl_eval powr_minus_divide round64_third round64_hundred_thirds third_nz
        round64_tran_third_scaler round64_tran_third_scaler4)

lemma building_third_demand:
  "service
     (BuildingDemandSector_aggdemand gdp_third_ex 2
       (BuildingDemandSector_aggdemand gdp_third_ex 1 building_third_ex)) ! 2
     = Fin (building_third_scaler * 4)"
  by (simp add: building_third_ex_def building_ex_def gdp_third_ex_def
        BuildingDemandSector_aggdemand_def building_priceRatio_def Let_def
        dge_def dlt_def dbl_eval round64_hundred_by_three third_nz
        round64_building_third_scaler round64_building_third_scaler4)

lemma building_pc_calibrated_values:
  "perCapitaBased building_pc_calibrated_ex"
  "pElasticity building_pc_calibrated_ex = [Fin 0, Fin 0, Fin (- 1), Fin (- 1)]"
  "iElasticity building_pc_calibrated_ex = [Fin (1 / 2), Fin (1 / 2), Fin (1 / 2), Fin (1 / 2)]"
  "sectorprice building_pc_calibrated_ex = [Fin 1, Fin 1, Fin 1, Fin 1]"
  "baseScaler building_pc_calibrated_ex = Fin 1"
  "baseService building_pc_calibrated_ex ! 2 = Fin (- 1)"
  "length (service building_pc_calibrated_ex) = 4"
  "length (servicePreTechChange building_pc_calibrated_ex) = 4"
  by (simp_all add: building_pc_calibrated_ex_def building_percapita_ex_def building_ex_def
        gdp_pc_ex_def
        BuildingDemandSector_aggdemand_def building_priceRatio_def Let_def
        dge_def dlt_def dbl_eval)

lemma gdp_pc_values: "getBestScaledGDPperCap gdp_pc_ex 2 = Fin 4" "getApproxScaledGDP gdp_pc_ex 2 = Fin 400"
  "getBestScaledGDPperCap gdp_pc_ex 1 = Fin 1" "getApproxScaledGDP gdp_pc_ex 1 = Fin 100"
  "getBestScaledGDPperCap gdp_pc_ex (Suc 0) = Fin 1"
  "getApproxScaledGDP gdp_pc_ex (Suc 0) = Fin 100"
  by (simp_all add: gdp_pc_ex_def)

lemma building_pc_priceRatio: "building_priceRatio building_pc_calibrated_ex 2 = Fin 1"
  by (simp add: building_priceRatio_def building_pc_calibrated_values dbl_eval)

lemma building_pc_demand:
  "service (BuildingDemandSector_aggdemand gdp_pc_ex 2 building_pc_calibrated_ex) ! 2 = Fin 200"
  by (simp add: building_projection_values [of building_pc_calibrated_ex 2 gdp_pc_ex]
        building_pc_calibrated_values building_pc_priceRatio gdp_pc_values dge_def dlt_def dbl_eval four_powr_half)

lemma tran_single_pc_values:
  "perCapitaBased tran_single_pc_ex"
  "pElasticity tran_single_pc_ex = [Fin 0, Fin 0, Fin (- 1), Fin (- 1)]"
  "iElasticity tran_single_pc_ex = [Fin (1 / 2), Fin (1 / 2), Fin (1 / 2), Fin (1 / 2)]"
  "sectorprice tran_single_pc_ex = [Fin 1, Fin 1, Fin 1, Fin 1]"
  "percentLicensed tran_single_pc_ex = [Fin 1, Fin 1, Fin 1, Fin 1]"
  "service tran_single_pc_ex = [Fin 100, Fin 100, Fin 0, Fin 0]"
  "length (servicePreTechChange tran_single_pc_ex) = 4"
  "length (output_vec tran_single_pc_ex) = 4"
  by (simp_all add: tran_single_pc_ex_def tran_single_ex_def tran_ex_def building_ex_def)

lemma tran_single_pc_fit:
  "baseScaler (TranSector_aggdemand modeltime_ex gdp_pc_ex 1 tran_single_pc_ex) = Fin 1"
  by (simp add: TranSector_aggdemand_def Let_def tran_single_pc_values gdp_pc_values dbl_eval)

lemma tran_single_pc_not_licensed:
  "baseScalerNotLic (TranSector_aggdemand modeltime_ex gdp_pc_ex 1 tran_single_pc_ex) = Fin 0"
  by (simp add: tran_fit_not_licensed tran_single_pc_values gdp_pc_values dbl_eval
        dmul_zero_left dmul_zero_right ddiv_def zero_of_def)

lemma tran_single_pc_demand:
  "servicePreTechChange
     (TranSector_aggdemand modeltime_ex gdp_pc_ex 2
       (TranSector_aggdemand modeltime_ex gdp_pc_ex 1 tran_single_pc_ex)) ! 2 = Fin 200"
proof -
  let ?t1 = "TranSector_aggdemand modeltime_ex gdp_pc_ex 1 tran_single_pc_ex"
  have tframe: "perCapitaBased ?t1 = perCapitaBased tran_single_pc_ex"
    "pElasticity ?t1 = pElasticity tran_single_pc_ex"
    "iElasticity ?t1 = iElasticity tran_single_pc_ex"
    "sectorprice ?t1 = sectorprice tran_single_pc_ex"
    "length (service ?t1) = length (service tran_single_pc_ex)"
    "length (servicePreTechChange ?t1) = length (servicePreTechChange tran_single_pc_ex)"
    "length (output_vec ?t1) = length (output_vec tran_single_pc_ex)"
    by (simp_all add: TranSector_aggdemand_def Let_def)
  show ?thesis
    using tran_projection_values [of 2 ?t1 modeltime_ex gdp_pc_ex]
    by (simp add: Let_def tframe [unfolded One_nat_def] tran_single_pc_values gdp_pc_values
          tran_single_pc_fit [unfolded One_nat_def]
          tran_single_pc_not_licensed [unfolded One_nat_def]
          dbl_eval four_powr_half dmul_zero_left dmul_zero_right)
qed

lemma tran_nogdp_fit:
  "baseScaler (TranSector_aggdemand modeltime_ex gdp_nogdp_ex 1 tran_single_pc_ex) = PInf"
  "baseScalerNotLic (TranSector_aggdemand modeltime_ex gdp_nogdp_ex 1 tran_single_pc_ex) = NaN"
  by (simp_all add: TranSector_aggdemand_def Let_def tran_single_pc_values gdp_nogdp_ex_def
        dbl_eval dmul_zero_left dmul_zero_right ddiv_def zero_of_def inf_of_def)

lemma building_nogdp_fit:
  "baseScaler (BuildingDemandSector_aggdemand gdp_nogdp_ex 1 building_percapita_ex) = PInf"
  by (simp add: BuildingDemandSector_aggdemand_def building_priceRatio_def Let_def
        building_percapita_ex_def building_ex_def gdp_nogdp_ex_def dge_def dlt_def
        dbl_eval dmul_zero_left dmul_zero_right ddiv_def zero_of_def inf_of_def)

lemma tran_nogdp_demand:
  "servicePreTechChange
     (TranSector_aggdemand modeltime_ex gdp_nogdp_ex 2
       (TranSector_aggdemand modeltime_ex gdp_nogdp_ex 1 tran_single_pc_ex)) ! 2 = NaN"
proof -
  let ?t1 = "TranSector_aggdemand modeltime_ex gdp_nogdp_ex 1 tran_single_pc_ex"
  have tframe: "perCapitaBased ?t1 = perCapitaBased tran_single_pc_ex"
    "pElasticity ?t1 = pElasticity tran_single_pc_ex"
    "iElasticity ?t1 = iElasticity tran_single_pc_ex"
    "sectorprice ?t1 = sectorprice tran_single_pc_ex"
    "length (service ?t1) = length (service tran_single_pc_ex)"
    "length (servicePreTechChange ?t1) = length (servicePreTechChange tran_single_pc_ex)"
    "length (output_vec ?t1) = length (output_vec tran_single_pc_ex)"
    by (simp_all add: TranSector_aggdemand_def Let_def)
  show ?thesis
    using tran_projection_values [of 2 ?t1 modeltime_ex gdp_nogdp_ex]
    by (simp add: Let_def tframe [unfolded One_nat_def] tran_single_pc_values
          tran_nogdp_fit [unfolded One_nat_def] dmul_def dadd_def)
qed

lemma building_nogdp_demand:
  "service
     (BuildingDemandSector_aggdemand gdp_nogdp_ex 2
       (BuildingDemandSector_aggdemand gdp_nogdp_ex 1 building_percapita_ex)) ! 2 = PInf"
proof -
  define b1 where "b1 = BuildingDemandSector_aggdemand gdp_nogdp_ex 1 building_percapita_ex"
  have bframe: "perCapitaBased b1" "pElasticity b1 = [Fin 0, Fin 0, Fin (- 1), Fin (- 1)]"
    "iElasticity b1 = [Fin (1 / 2), Fin (1 / 2), Fin (1 / 2), Fin (1 / 2)]"
    "sectorprice b1 = [Fin 1, Fin 1, Fin 1, Fin 1]"
    "baseService b1 ! 2 = Fin (- 1)"
    "length (service b1) = 4" "length (servicePreTechChange b1) = 4"
    by (simp_all add: b1_def BuildingDemandSector_aggdemand_def Let_def
          building_percapita_ex_def building_ex_def)
  have fit: "baseScaler b1 = PInf"
    unfolding b1_def by (rule building_nogdp_fit)
  have pr: "building_priceRatio b1 2 = Fin 1"
    by (simp add: building_priceRatio_def bframe dbl_eval)
  have proj: "\<not> dge (baseService b1 ! 2) (Fin 0)" "2 < length (service b1)"
    "2 < length (servicePreTechChange b1)"
    by (simp_all add: bframe dge_def dlt_def)
  have g: "getBestScaledGDPperCap gdp_nogdp_ex 2 = Fin 1"
    "getApproxScaledGDP gdp_nogdp_ex 2 = Fin 100"
    by (simp_all add: gdp_nogdp_ex_def)
  have "service (BuildingDemandSector_aggdemand gdp_nogdp_ex 2 b1) ! 2 = PInf"
    unfolding building_projection_values [OF proj] pr g fit
    by (simp add: bframe dbl_eval dmul_def inf_of_def)
  then show ?thesis unfolding b1_def .
qed

subsection \<open>Simple strategy: calibration and projection\<close>

text \<open>
  C1. In a calibration period of the building sector (\<open>baseService[p] >= 0\<close>),
  \<open>aggdemand\<close> writes the observed value \<open>baseService[p]\<close> unchanged into both
  \<open>servicePreTechChange[p]\<close> and \<open>service[p]\<close>, and refits \<open>baseScaler\<close> to
  \<open>baseService[p] / priceRatio^pElasticity[p]\<close> divided further by
  \<open>gdpPerCapita^iElasticity[p] * gdpAggregate / gdpPerCapita\<close>, taken from left to
  right as the source writes it, when the sector is per-capita based and by
  \<open>gdpAggregate^iElasticity[p]\<close> otherwise.
\<close>

theorem building_calibration_pass_through:
  assumes "dge (baseService s ! p) (Fin 0)"
    and "p < length (service s)" and "p < length (servicePreTechChange s)"
  shows "let s' = BuildingDemandSector_aggdemand gdp p s;
             priceRatio = (if p > 1 then ddiv (sectorprice s ! p) (sectorprice s ! (p - 1))
                           else Fin 1);
             gdpPerCapita = getBestScaledGDPperCap gdp p;
             gdpAggregate = getApproxScaledGDP gdp p;
             fit = ddiv (baseService s ! p) (dpow priceRatio (pElasticity s ! p))
         in servicePreTechChange s' ! p = baseService s ! p
          \<and> service s' ! p = baseService s ! p
          \<and> baseScaler s' =
              (if perCapitaBased s
               then ddiv fit (ddiv (dmul (dpow gdpPerCapita (iElasticity s ! p)) gdpAggregate)
                                   gdpPerCapita)
               else ddiv fit (dpow gdpAggregate (iElasticity s ! p)))"
  using assms
  by (simp add: BuildingDemandSector_aggdemand_def building_priceRatio_def Let_def)

theorem building_calibration_pass_through_witness:
  "let s' = BuildingDemandSector_aggdemand gdp_ex 1 building_ex
   in dge (baseService building_ex ! 1) (Fin 0)
    \<and> servicePreTechChange s' ! 1 = Fin 100 \<and> service s' ! 1 = Fin 100
    \<and> baseScaler s' = Fin 10"
  using building_calibration_pass_through [of building_ex 1 gdp_ex]
  by (simp add: building_ex_def gdp_ex_def Let_def dge_def dlt_def dbl_eval)

text \<open>
  C2. In a projection period of the building sector (\<open>baseService[p] < 0\<close>),
  \<open>aggdemand\<close> writes the same value into \<open>service[p]\<close> and
  \<open>servicePreTechChange[p]\<close>:
  \<open>baseScaler * priceRatio^pElasticity[p] * gdpPerCapita^iElasticity[p] *
  (gdpAggregate/gdpPerCapita)\<close> when the sector is per-capita based, and
  \<open>baseScaler * priceRatio^pElasticity[p] * gdpAggregate^iElasticity[p]\<close> otherwise,
  where \<open>priceRatio\<close> is \<open>priceCurr/pricePrev\<close> for \<open>p > 1\<close> and 1 otherwise.
  No efficiency trend enters: the two values are equal.
\<close>

theorem building_projection_formula:
  assumes "dlt (baseService s ! p) (Fin 0)"
    and "p < length (service s)" and "p < length (servicePreTechChange s)"
  shows "let s' = BuildingDemandSector_aggdemand gdp p s;
             priceRatio = (if p > 1 then ddiv (sectorprice s ! p) (sectorprice s ! (p - 1))
                           else Fin 1);
             gdpPerCapita = getBestScaledGDPperCap gdp p;
             gdpAggregate = getApproxScaledGDP gdp p;
             demand =
               (if perCapitaBased s
                then dmul (dmul (dmul (baseScaler s) (dpow priceRatio (pElasticity s ! p)))
                                (dpow gdpPerCapita (iElasticity s ! p)))
                          (ddiv gdpAggregate gdpPerCapita)
                else dmul (dmul (baseScaler s) (dpow priceRatio (pElasticity s ! p)))
                          (dpow gdpAggregate (iElasticity s ! p)))
         in service s' ! p = demand \<and> servicePreTechChange s' ! p = demand"
  using assms dlt_zero_not_dge [of "baseService s ! p"]
  by (simp add: BuildingDemandSector_aggdemand_def building_priceRatio_def Let_def)

theorem building_projection_formula_witness:
  "let s1 = BuildingDemandSector_aggdemand gdp_ex 1 building_ex;
       s2 = BuildingDemandSector_aggdemand gdp_ex 2 s1
   in dlt (baseService s1 ! 2) (Fin 0)
    \<and> service s2 ! 2 = Fin 110 \<and> servicePreTechChange s2 ! 2 = Fin 110"
  using building_projection_formula
          [of "BuildingDemandSector_aggdemand gdp_ex 1 building_ex" 2 gdp_ex]
  by (simp add: BuildingDemandSector_aggdemand_def building_ex_def gdp_ex_def
        building_priceRatio_def Let_def dge_def dlt_def dbl_eval)

subsection \<open>Segmented strategy: the two base periods\<close>

text \<open>
  C3. Periods 0 and 1 of the transportation sector are calibration periods whatever the
  data: \<open>aggdemand\<close> sets \<open>priceRatio\<close> and \<open>priceRatioNotLic\<close> to 1, fits
  \<open>baseScaler\<close> from \<open>service[p] * percentLicensed[p]\<close> and \<open>baseScalerNotLic\<close> from
  \<open>service[p] * (1 - percentLicensed[p])\<close>, each times
  \<open>gdpPerCapita^(-iElasticity[p]) / (gdpAggregate/gdpPerCapita)\<close> when per-capita
  based and times \<open>gdpAggregate^(-iElasticity[p])\<close> otherwise, leaves the vector
  \<open>service\<close> as it was, and sets \<open>servicePreTechChange[p]\<close> to \<open>service[p]\<close>.
\<close>

theorem tran_base_period_calibration:
  assumes "p = 0 \<or> p = 1"
    and "p < length (servicePreTechChange s)"
  shows "let s' = TranSector_aggdemand modeltime gdp p s;
             gdpPerCapita = getBestScaledGDPperCap gdp p;
             gdpAggregate = getApproxScaledGDP gdp p;
             licensed = dmul (service s ! p) (percentLicensed s ! p);
             notLicensed = dmul (service s ! p) (dsub (Fin 1) (percentLicensed s ! p))
         in priceRatio s' = Fin 1 \<and> priceRatioNotLic s' = Fin 1
          \<and> baseScaler s' =
              (if perCapitaBased s
               then ddiv (dmul licensed (dpow gdpPerCapita (dneg (iElasticity s ! p))))
                         (ddiv gdpAggregate gdpPerCapita)
               else dmul licensed (dpow gdpAggregate (dneg (iElasticity s ! p))))
          \<and> baseScalerNotLic s' =
              (if perCapitaBased s
               then ddiv (dmul notLicensed (dpow gdpPerCapita (dneg (iElasticity s ! p))))
                         (ddiv gdpAggregate gdpPerCapita)
               else dmul notLicensed (dpow gdpAggregate (dneg (iElasticity s ! p))))
          \<and> service s' = service s
          \<and> servicePreTechChange s' ! p = service s ! p"
  using assms
  by (auto simp add: TranSector_aggdemand_def Let_def dpow_one_base dmul_one_right
        is_double_dmul)

theorem tran_base_period_calibration_witness:
  "let s' = TranSector_aggdemand modeltime_ex gdp_ex 1 tran_ex
   in priceRatio s' = Fin 1 \<and> priceRatioNotLic s' = Fin 1
    \<and> baseScaler s' = Fin (1 / 2) \<and> baseScalerNotLic s' = Fin (1 / 2)
    \<and> service s' = service tran_ex \<and> servicePreTechChange s' ! 1 = Fin 100"
  using tran_base_period_calibration [of 1 tran_ex modeltime_ex gdp_ex]
  by (simp add: tran_ex_def gdp_ex_def Let_def dbl_eval powr_minus_divide
        round64_hundredth round64_fifty_hundredths hundredth_nz)

subsection \<open>Segmented strategy: projection periods\<close>

text \<open>
  C4. The claim asks for the sum of the licensed and the not-licensed contribution in
  \<open>servicePreTechChange[p]\<close> in either mode. In the aggregate-GDP mode the code leaves
  the not-licensed term out, although the base periods fit \<open>baseScalerNotLic\<close> in that
  mode too and the per-capita branch adds it. On the example calibrated in period 1
  (service 100 at GDP 100, half of it licensed, so that both scalers are 1/2), period 2
  at GDP 121 and income elasticity 1 yields 121/2, the licensed half only, where the sum
  of the two contributions is 121.
\<close>

theorem tran_aggregate_projection_drops_not_licensed:
  "perCapitaBased tran_ex_calibrated = False
   \<and> baseScaler tran_ex_calibrated = Fin (1 / 2)
   \<and> baseScalerNotLic tran_ex_calibrated = Fin (1 / 2)
   \<and> servicePreTechChange (TranSector_aggdemand modeltime_ex gdp_ex 2 tran_ex_calibrated) ! 2
       = Fin (121 / 2)
   \<and> dadd (dmul (dmul (baseScaler tran_ex_calibrated)
                      (dpow (ddiv (sectorprice tran_ex_calibrated ! 2)
                                  (sectorprice tran_ex_calibrated ! 1))
                            (pElasticity tran_ex_calibrated ! 2)))
                (dpow (getApproxScaledGDP gdp_ex 2) (iElasticity tran_ex_calibrated ! 2)))
          (dmul (dmul (baseScalerNotLic tran_ex_calibrated)
                      (dpow (ddiv (sectorprice tran_ex_calibrated ! 2)
                                  (sectorprice tran_ex_calibrated ! 1))
                            (pElasticity tran_ex_calibrated ! 2)))
                (dpow (getApproxScaledGDP gdp_ex 2) (iElasticity tran_ex_calibrated ! 2)))
       = Fin 121"
  by (simp add: tran_ex_calibrated_def TranSector_aggdemand_def tran_ex_def gdp_ex_def
        modeltime_ex_def Let_def dbl_eval powr_minus_divide round64_hundredth
        round64_fifty_hundredths hundredth_nz round64_dyadic [of 121 1, simplified])

subsection \<open>Reconciliation with calibrated outputs\<close>

text \<open>
  C7. \<open>TranSector::checkSectorCalData\<close> overwrites \<open>service[p]\<close> with the calibrated
  output total and appends one DEBUG entry with the scale factor (calibrated total
  divided by the previous \<open>service[p]\<close>), region and sector exactly when all inputs of
  the period are fixed; otherwise it returns the state as it was. It has no failing
  path: it yields a state for every input.
\<close>

theorem tran_checkSectorCalData_reconciliation:
  "let s' = TranSector_checkSectorCalData inputsAllFixed getCalOutput p s
   in (inputsAllFixed p \<longrightarrow>
         s' = s\<lparr>service := (service s)[p := getCalOutput p],
                 mainLog := mainLog s @
                   [(DEBUG, [Text ''Calibrated Demand Scaled by '',
                             Val (ddiv (getCalOutput p) (service s ! p)),
                             Text '' in region '', Text (regionName s),
                             Text '' sector '', Text (name s)])]\<rparr>
         \<and> (p < length (service s) \<longrightarrow> service s' ! p = getCalOutput p))
    \<and> (\<not> inputsAllFixed p \<longrightarrow> s' = s)
    \<and> (mainLog s' \<noteq> mainLog s) = inputsAllFixed p"
  by (simp add: TranSector_checkSectorCalData_def Let_def)

theorem tran_checkSectorCalData_reconciliation_witness:
  "service (TranSector_checkSectorCalData (\<lambda>p. True) (\<lambda>p. Fin 50) 1 tran_ex) ! 1 = Fin 50
   \<and> mainLog (TranSector_checkSectorCalData (\<lambda>p. True) (\<lambda>p. Fin 50) 1 tran_ex)
       = [(DEBUG, [Text ''Calibrated Demand Scaled by '', Val (Fin (1 / 2)),
                   Text '' in region '', Text ''USA'',
                   Text '' sector '', Text ''transportation''])]
   \<and> TranSector_checkSectorCalData (\<lambda>p. False) (\<lambda>p. Fin 50) 1 tran_ex = tran_ex"
  using tran_checkSectorCalData_reconciliation [of "\<lambda>p. True" "\<lambda>p. Fin 50" 1 tran_ex]
        tran_checkSectorCalData_reconciliation [of "\<lambda>p. False" "\<lambda>p. Fin 50" 1 tran_ex]
  by (simp add: tran_ex_def Let_def dbl_eval)

subsection \<open>Scaler stability\<close>

text \<open>
  C5, as the claim states it, fails for the transportation sector: its \<open>service[p]\<close>
  is \<open>servicePreTechChange[p]\<close> divided by \<open>(1 + aeei[p])^timestep(p)\<close>, so two
  projection periods with the same scalers, price ratio, GDP values and elasticities
  but different trend rates get different service. On the calibrated example, periods
  2 and 3 agree in all of these, the trend rate is 0 in period 2 and 1 in period 3, and
  the service is 121/2 and 121/4.
\<close>

theorem scaler_stability_counterexample:
  "baseScaler tran_ex_period2 = baseScaler tran_ex_calibrated
   \<and> baseScalerNotLic tran_ex_period2 = baseScalerNotLic tran_ex_calibrated
   \<and> priceRatio tran_ex_period2
       = priceRatio (TranSector_aggdemand modeltime_ex gdp_ex 3 tran_ex_period2)
   \<and> getBestScaledGDPperCap gdp_ex 2 = getBestScaledGDPperCap gdp_ex 3
   \<and> getApproxScaledGDP gdp_ex 2 = getApproxScaledGDP gdp_ex 3
   \<and> pElasticity tran_ex_period2 ! 2 = pElasticity tran_ex_period2 ! 3
   \<and> iElasticity tran_ex_period2 ! 2 = iElasticity tran_ex_period2 ! 3
   \<and> service tran_ex_period2 ! 2 = Fin (121 / 2)
   \<and> service (TranSector_aggdemand modeltime_ex gdp_ex 3 tran_ex_period2) ! 3 = Fin (121 / 4)
   \<and> service tran_ex_period2 ! 2
       \<noteq> service (TranSector_aggdemand modeltime_ex gdp_ex 3 tran_ex_period2) ! 3"
  by (simp add: tran_ex_period2_def tran_ex_calibrated_def TranSector_aggdemand_def
        tran_ex_def gdp_ex_def modeltime_ex_def Let_def dbl_eval powr_minus_divide
        round64_hundredth round64_fifty_hundredths hundredth_nz
        round64_dyadic [of 121 1, simplified] round64_dyadic [of 121 2, simplified])

text \<open>
  C5, amended. In a projection period (building sector: \<open>baseService[p] >= 0\<close> is false;
  transportation sector: \<open>p >= 2\<close>) \<open>aggdemand\<close> leaves \<open>baseScaler\<close>,
  \<open>baseScalerNotLic\<close> and \<open>baseService\<close> as they were. Two projection-period
  invocations with the same scalers and mode and identical price ratio, GDP per capita,
  aggregate GDP and elasticities yield the same \<open>service\<close> in the building sector and
  the same \<open>servicePreTechChange\<close> in the transportation sector; there the \<open>service\<close>
  values are the same when the trend rate and the time step agree as well.
\<close>

theorem scaler_stability:
  "(\<not> dge (baseService b ! p) (Fin 0) \<longrightarrow>
      baseScaler (BuildingDemandSector_aggdemand gdp p b) = baseScaler b
    \<and> baseScalerNotLic (BuildingDemandSector_aggdemand gdp p b) = baseScalerNotLic b
    \<and> baseService (BuildingDemandSector_aggdemand gdp p b) = baseService b)
 \<and> (2 \<le> q \<longrightarrow>
      baseScaler (TranSector_aggdemand modeltime gdp q t) = baseScaler t
    \<and> baseScalerNotLic (TranSector_aggdemand modeltime gdp q t) = baseScalerNotLic t)
 \<and> (\<not> dge (baseService ba ! pa) (Fin 0) \<and> \<not> dge (baseService bb ! pb) (Fin 0)
    \<and> pa < length (service ba) \<and> pb < length (service bb)
    \<and> baseScaler ba = baseScaler bb \<and> perCapitaBased ba = perCapitaBased bb
    \<and> building_priceRatio ba pa = building_priceRatio bb pb
    \<and> getBestScaledGDPperCap gdp pa = getBestScaledGDPperCap gdp pb
    \<and> getApproxScaledGDP gdp pa = getApproxScaledGDP gdp pb
    \<and> pElasticity ba ! pa = pElasticity bb ! pb
    \<and> iElasticity ba ! pa = iElasticity bb ! pb \<longrightarrow>
      service (BuildingDemandSector_aggdemand gdp pa ba) ! pa
        = service (BuildingDemandSector_aggdemand gdp pb bb) ! pb)
 \<and> (2 \<le> qa \<and> 2 \<le> qb
    \<and> qa < length (service ta) \<and> qb < length (service tb)
    \<and> qa < length (servicePreTechChange ta) \<and> qb < length (servicePreTechChange tb)
    \<and> baseScaler ta = baseScaler tb \<and> baseScalerNotLic ta = baseScalerNotLic tb
    \<and> perCapitaBased ta = perCapitaBased tb
    \<and> ddiv (sectorprice ta ! qa) (sectorprice ta ! (qa - 1))
        = ddiv (sectorprice tb ! qb) (sectorprice tb ! (qb - 1))
    \<and> getBestScaledGDPperCap gdp qa = getBestScaledGDPperCap gdp qb
    \<and> getApproxScaledGDP gdp qa = getApproxScaledGDP gdp qb
    \<and> pElasticity ta ! qa = pElasticity tb ! qb
    \<and> iElasticity ta ! qa = iElasticity tb ! qb \<longrightarrow>
      servicePreTechChange (TranSector_aggdemand modeltime gdp qa ta) ! qa
        = servicePreTechChange (TranSector_aggdemand modeltime gdp qb tb) ! qb
    \<and> (aeei ta ! qa = aeei tb ! qb \<and> gettimestep modeltime qa = gettimestep modeltime qb \<longrightarrow>
          service (TranSector_aggdemand modeltime gdp qa ta) ! qa
            = service (TranSector_aggdemand modeltime gdp qb tb) ! qb))"
proof (intro conjI)
  show "\<not> dge (baseService b ! p) (Fin 0) \<longrightarrow>
      baseScaler (BuildingDemandSector_aggdemand gdp p b) = baseScaler b
    \<and> baseScalerNotLic (BuildingDemandSector_aggdemand gdp p b) = baseScalerNotLic b
    \<and> baseService (BuildingDemandSector_aggdemand gdp p b) = baseService b"
    by (simp add: BuildingDemandSector_aggdemand_def Let_def)
  show "2 \<le> q \<longrightarrow>
      baseScaler (TranSector_aggdemand modeltime gdp q t) = baseScaler t
    \<and> baseScalerNotLic (TranSector_aggdemand modeltime gdp q t) = baseScalerNotLic t"
    by (simp add: TranSector_aggdemand_def Let_def)
qed (simp_all add: BuildingDemandSector_aggdemand_def TranSector_aggdemand_def Let_def)

theorem scaler_stability_witness:
  "baseScaler (BuildingDemandSector_aggdemand gdp_ex 2 building_ex_calibrated) = Fin 10
   \<and> baseScaler (TranSector_aggdemand modeltime_ex gdp_ex 2 tran_notrend_ex) = Fin (1 / 2)
   \<and> baseScalerNotLic (TranSector_aggdemand modeltime_ex gdp_ex 2 tran_notrend_ex) = Fin (1 / 2)
   \<and> service (BuildingDemandSector_aggdemand gdp_ex 2 building_ex_calibrated) ! 2
       = service (BuildingDemandSector_aggdemand gdp_ex 3 building_ex_calibrated) ! 3
   \<and> service (TranSector_aggdemand modeltime_ex gdp_ex 2 tran_notrend_ex) ! 2
       = service (TranSector_aggdemand modeltime_ex gdp_ex 3 tran_notrend_ex) ! 3"
  using scaler_stability [where b = building_ex_calibrated and p = 2 and gdp = gdp_ex
                  and q = 2 and t = tran_notrend_ex and modeltime = modeltime_ex
                  and ba = building_ex_calibrated and pa = 2
                  and bb = building_ex_calibrated and pb = 3
                  and ta = tran_notrend_ex and qa = 2
                  and tb = tran_notrend_ex and qb = 3]
  by (simp add: building_ex_calibrated_def tran_notrend_ex_def tran_ex_calibrated_def
        BuildingDemandSector_aggdemand_def TranSector_aggdemand_def building_priceRatio_def
        building_ex_def tran_ex_def gdp_ex_def modeltime_ex_def Let_def dge_def dlt_def
        dbl_eval powr_minus_divide round64_hundredth round64_fifty_hundredths hundredth_nz
        round64_dyadic [of 121 1, simplified])

subsection \<open>The unset scaler\<close>

text \<open>
  C6, as the claim states it, fails: the fallback and the warning are there, but the
  demand computed with the fallback need not be finite. With GDP per capita \<open>2^-100\<close>,
  aggregate GDP \<open>2^1000\<close>, both elasticities 0 and all prices 1 (finite positive
  drivers and prices), a per-capita building sector whose \<open>baseScaler\<close> is still -1
  gets \<open>service[2] = 1 * 1 * 1 * (2^1000 / 2^-100)\<close>, which overflows to the positive
  infinity. And on the example scenario (GDP 121 in period 2), with the price doubling,
  price elasticity 2000 and income elasticity -2000, the price power overflows and the
  income power underflows, so that \<open>service[2] = 1 * pow(2, 2000) * pow(121, -2000)\<close>
  is infinity times zero, a NaN.
\<close>

theorem unset_scaler_not_finite:
  "dlt (baseScaler building_flat_ex) (Fin 0)
   \<and> dlt (baseService building_flat_ex ! 2) (Fin 0)
   \<and> is_finite (getBestScaledGDPperCap gdp_huge_ex 2)
   \<and> dlt (Fin 0) (getBestScaledGDPperCap gdp_huge_ex 2)
   \<and> is_finite (getApproxScaledGDP gdp_huge_ex 2)
   \<and> dlt (Fin 0) (getApproxScaledGDP gdp_huge_ex 2)
   \<and> sectorprice building_flat_ex ! 2 = Fin 1 \<and> sectorprice building_flat_ex ! 1 = Fin 1
   \<and> is_finite (pElasticity building_flat_ex ! 2) \<and> is_finite (iElasticity building_flat_ex ! 2)
   \<and> service (BuildingDemandSector_aggdemand gdp_huge_ex 2
        (BuildingDemandSector_initCalc 2 (\<lambda>k. Fin 0) building_flat_ex)) ! 2 = PInf
   \<and> \<not> is_finite (service (BuildingDemandSector_aggdemand gdp_huge_ex 2
          (BuildingDemandSector_initCalc 2 (\<lambda>k. Fin 0) building_flat_ex)) ! 2)
   \<and> dlt (baseScaler building_clash_ex) (Fin 0)
   \<and> dlt (baseService building_clash_ex ! 2) (Fin 0)
   \<and> getBestScaledGDPperCap gdp_ex 2 = Fin 2 \<and> getApproxScaledGDP gdp_ex 2 = Fin 121
   \<and> sectorprice building_clash_ex ! 2 = Fin 2 \<and> sectorprice building_clash_ex ! 1 = Fin 1
   \<and> pElasticity building_clash_ex ! 2 = Fin 2000
   \<and> iElasticity building_clash_ex ! 2 = Fin (- 2000)
   \<and> service (BuildingDemandSector_aggdemand gdp_ex 2
        (BuildingDemandSector_initCalc 2 (\<lambda>k. Fin 0) building_clash_ex)) ! 2 = NaN"
proof -
  have "service (BuildingDemandSector_aggdemand gdp_huge_ex 2
        (BuildingDemandSector_initCalc 2 (\<lambda>k. Fin 0) building_flat_ex)) ! 2 = PInf"
    by (simp add: building_flat_ex_def building_ex_def gdp_huge_ex_def
        BuildingDemandSector_aggdemand_def BuildingDemandSector_initCalc_def
        building_priceRatio_def Let_def dge_def dlt_def dbl_eval round64_overflow_pos
        dmul_def inf_of_def)
  then show ?thesis
    using unset_scaler_clash_values
    by (simp add: building_flat_ex_def building_clash_ex_def building_ex_def gdp_huge_ex_def
          gdp_ex_def dlt_def)
qed

text \<open>
  C6, amended. When \<open>baseScaler\<close> is negative, \<open>initCalc\<close> sets it to 1 and appends
  one WARNING entry that names the period, the sector and the region. In a projection
  period with positive GDP per capita and aggregate GDP (and, after period 1, positive
  prices) the following \<open>aggdemand\<close> then stores in \<open>service[p]\<close> the value of the
  projection formula with scaler 1, and that value is not below zero: it is neither a
  negative number nor the negative infinity. It may be the positive infinity or a NaN,
  as above.
\<close>

theorem building_unset_scaler_fallback:
  assumes "dlt (baseScaler s) (Fin 0)"
    and "dlt (baseService s ! p) (Fin 0)"
    and "p < length (service s)" and "p < length (servicePreTechChange s)"
    and "dlt (Fin 0) (getBestScaledGDPperCap gdp p)" and "dlt (Fin 0) (getApproxScaledGDP gdp p)"
    and "1 < p \<longrightarrow> dlt (Fin 0) (sectorprice s ! p) \<and> dlt (Fin 0) (sectorprice s ! (p - 1))"
  shows "let s1 = BuildingDemandSector_initCalc p aRegionInfo s;
             s2 = BuildingDemandSector_aggdemand gdp p s1;
             priceRatio = (if p > 1 then ddiv (sectorprice s ! p) (sectorprice s ! (p - 1))
                           else Fin 1);
             gdpPerCapita = getBestScaledGDPperCap gdp p;
             gdpAggregate = getApproxScaledGDP gdp p
         in baseScaler s1 = Fin 1
          \<and> mainLog s1 = mainLog s @
              [(WARNING,
                [Text ''WARNING: Building sector base demand service not set in period '',
                 Num p, Text '' sector '', Text (name s),
                 Text '' region '', Text (regionName s),
                 Text ''.  baseScaler being set to 1.''])]
          \<and> service s2 ! p =
              (if perCapitaBased s
               then dmul (dmul (dmul (Fin 1) (dpow priceRatio (pElasticity s ! p)))
                               (dpow gdpPerCapita (iElasticity s ! p)))
                         (ddiv gdpAggregate gdpPerCapita)
               else dmul (dmul (Fin 1) (dpow priceRatio (pElasticity s ! p)))
                         (dpow gdpAggregate (iElasticity s ! p)))
          \<and> \<not> dlt (service s2 ! p) (Fin 0)"
proof -
  let ?s1 = "BuildingDemandSector_initCalc p aRegionInfo s"
  let ?pr = "if p > 1 then ddiv (sectorprice s ! p) (sectorprice s ! (p - 1)) else Fin 1"
  let ?g = "getBestScaledGDPperCap gdp p" and ?G = "getApproxScaledGDP gdp p"
  let ?d = "if perCapitaBased s
               then dmul (dmul (dmul (Fin 1) (dpow ?pr (pElasticity s ! p)))
                               (dpow ?g (iElasticity s ! p)))
                         (ddiv ?G ?g)
               else dmul (dmul (Fin 1) (dpow ?pr (pElasticity s ! p)))
                         (dpow ?G (iElasticity s ! p))"
  have s1: "baseScaler ?s1 = Fin 1" "baseService ?s1 = baseService s"
    "sectorprice ?s1 = sectorprice s" "pElasticity ?s1 = pElasticity s"
    "iElasticity ?s1 = iElasticity s" "service ?s1 = service s"
    "servicePreTechChange ?s1 = servicePreTechChange s" "perCapitaBased ?s1 = perCapitaBased s"
    using assms(1) by (simp_all add: BuildingDemandSector_initCalc_def Let_def)
  have log: "mainLog ?s1 = mainLog s @
              [(WARNING,
                [Text ''WARNING: Building sector base demand service not set in period '',
                 Num p, Text '' sector '', Text (name s),
                 Text '' region '', Text (regionName s),
                 Text ''.  baseScaler being set to 1.''])]"
    using assms(1) by (simp add: BuildingDemandSector_initCalc_def Let_def)
  have pr: "not_neg ?pr"
    using assms(7) by (simp add: not_neg_ddiv pos_not_neg)
  have g: "not_neg ?g" and G: "not_neg ?G"
    using assms(5,6) by (simp_all add: pos_not_neg)
  have a: "not_neg (dmul (Fin 1) (dpow ?pr (pElasticity s ! p)))"
    by (intro not_neg_dmul not_neg_dpow pr) simp
  have "not_neg ?d"
    using a g G by (simp add: not_neg_dmul not_neg_ddiv not_neg_dpow)
  then have nn: "\<not> dlt ?d (Fin 0)" by (rule not_neg_not_lt)
  have eq: "service (BuildingDemandSector_aggdemand gdp p ?s1) ! p = ?d"
    using assms(3,4) dlt_zero_not_dge [OF assms(2)]
    by (simp add: BuildingDemandSector_aggdemand_def building_priceRatio_def Let_def s1)
  show ?thesis
    using s1(1) log eq nn by (simp add: Let_def)
qed

theorem building_unset_scaler_fallback_witness:
  "baseScaler (BuildingDemandSector_initCalc 0 (\<lambda>k. Fin 0) building_ex) = Fin 1
   \<and> mainLog (BuildingDemandSector_initCalc 0 (\<lambda>k. Fin 0) building_ex) =
       [(WARNING,
         [Text ''WARNING: Building sector base demand service not set in period '',
          Num 0, Text '' sector '', Text ''building'', Text '' region '', Text ''USA'',
          Text ''.  baseScaler being set to 1.''])]
   \<and> service (BuildingDemandSector_aggdemand gdp_ex 0
         (BuildingDemandSector_initCalc 0 (\<lambda>k. Fin 0) building_ex)) ! 0 = Fin 10
   \<and> \<not> dlt (service (BuildingDemandSector_aggdemand gdp_ex 0
         (BuildingDemandSector_initCalc 0 (\<lambda>k. Fin 0) building_ex)) ! 0) (Fin 0)"
  using building_unset_scaler_fallback [of building_ex 0 gdp_ex "\<lambda>k. Fin 0"]
  by (simp add: building_ex_def gdp_ex_def Let_def dlt_def dbl_eval)

subsection \<open>GDP per capita zero\<close>

text \<open>
  C8 fails: \<open>aggdemand\<close> has no guard on the GDP per capita and no error path. On the
  per-capita building example with GDP per capita 0, period 1 (a calibration period)
  fits \<open>baseScaler = 100 / ((0^(1/2) * 100) / 0) = 100 / (0/0)\<close>, a NaN, and period 2
  then stores a NaN in \<open>service[2]\<close>.
\<close>

theorem zero_gdp_per_capita_counterexample:
  "perCapitaBased building_percapita_ex
   \<and> getBestScaledGDPperCap gdp_zero_ex 1 = Fin 0
   \<and> baseScaler (BuildingDemandSector_aggdemand gdp_zero_ex 1 building_percapita_ex) = NaN
   \<and> service (BuildingDemandSector_aggdemand gdp_zero_ex 2
        (BuildingDemandSector_aggdemand gdp_zero_ex 1 building_percapita_ex)) ! 2 = NaN
   \<and> \<not> is_finite (baseScaler
          (BuildingDemandSector_aggdemand gdp_zero_ex 1 building_percapita_ex))"
  by (simp add: building_percapita_ex_def building_ex_def gdp_zero_ex_def
        BuildingDemandSector_aggdemand_def building_priceRatio_def Let_def
        dge_def dlt_def dbl_eval dpow_def dmul_def ddiv_def is_odd_int_def is_int_def
        zero_of_def)

text \<open>
  C8, amended. In per-capita mode with a GDP per capita that is zero, \<open>aggdemand\<close>
  logs nothing and stores what its formulas yield. In a projection period (building
  sector: \<open>baseService[p] >= 0\<close> is false; transportation sector: \<open>p >= 2\<close>) the values
  stored in \<open>service[p]\<close> and \<open>servicePreTechChange[p]\<close> are never finite, whatever
  the other inputs are. In a calibration period the observed service passes through
  and each fitted scaler becomes a zero or a NaN.
\<close>

theorem aggdemand_zero_gdp_per_capita:
  "(perCapitaBased b \<and> is_zero (getBestScaledGDPperCap gdp p)
    \<and> \<not> dge (baseService b ! p) (Fin 0)
    \<and> p < length (service b) \<and> p < length (servicePreTechChange b) \<longrightarrow>
      \<not> is_finite (service (BuildingDemandSector_aggdemand gdp p b) ! p)
    \<and> \<not> is_finite (servicePreTechChange (BuildingDemandSector_aggdemand gdp p b) ! p)
    \<and> mainLog (BuildingDemandSector_aggdemand gdp p b) = mainLog b)
 \<and> (perCapitaBased b \<and> is_zero (getBestScaledGDPperCap gdp p)
    \<and> dge (baseService b ! p) (Fin 0)
    \<and> p < length (service b) \<and> p < length (servicePreTechChange b) \<longrightarrow>
      service (BuildingDemandSector_aggdemand gdp p b) ! p = baseService b ! p
    \<and> servicePreTechChange (BuildingDemandSector_aggdemand gdp p b) ! p = baseService b ! p
    \<and> (is_zero (baseScaler (BuildingDemandSector_aggdemand gdp p b))
       \<or> is_nan (baseScaler (BuildingDemandSector_aggdemand gdp p b)))
    \<and> mainLog (BuildingDemandSector_aggdemand gdp p b) = mainLog b)
 \<and> (perCapitaBased t \<and> is_zero (getBestScaledGDPperCap gdp q) \<and> 2 \<le> q
    \<and> q < length (service t) \<and> q < length (servicePreTechChange t) \<longrightarrow>
      \<not> is_finite (service (TranSector_aggdemand modeltime gdp q t) ! q)
    \<and> \<not> is_finite (servicePreTechChange (TranSector_aggdemand modeltime gdp q t) ! q)
    \<and> mainLog (TranSector_aggdemand modeltime gdp q t) = mainLog t)
 \<and> (perCapitaBased t \<and> is_zero (getBestScaledGDPperCap gdp c) \<and> (c = 0 \<or> c = 1) \<longrightarrow>
      service (TranSector_aggdemand modeltime gdp c t) = service t
    \<and> (is_zero (baseScaler (TranSector_aggdemand modeltime gdp c t))
       \<or> is_nan (baseScaler (TranSector_aggdemand modeltime gdp c t)))
    \<and> (is_zero (baseScalerNotLic (TranSector_aggdemand modeltime gdp c t))
       \<or> is_nan (baseScalerNotLic (TranSector_aggdemand modeltime gdp c t)))
    \<and> mainLog (TranSector_aggdemand modeltime gdp c t) = mainLog t)"
proof (intro conjI impI)
  assume h: "perCapitaBased b \<and> is_zero (getBestScaledGDPperCap gdp p)
    \<and> \<not> dge (baseService b ! p) (Fin 0)
    \<and> p < length (service b) \<and> p < length (servicePreTechChange b)"
  then show "\<not> is_finite (service (BuildingDemandSector_aggdemand gdp p b) ! p)"
    and "\<not> is_finite (servicePreTechChange (BuildingDemandSector_aggdemand gdp p b) ! p)"
    by (simp_all add: BuildingDemandSector_aggdemand_def Let_def dmul_not_finite_right
          ddiv_by_zero_not_finite)
next
  assume h: "perCapitaBased b \<and> is_zero (getBestScaledGDPperCap gdp p)
    \<and> dge (baseService b ! p) (Fin 0)
    \<and> p < length (service b) \<and> p < length (servicePreTechChange b)"
  then show "service (BuildingDemandSector_aggdemand gdp p b) ! p = baseService b ! p"
    and "servicePreTechChange (BuildingDemandSector_aggdemand gdp p b) ! p = baseService b ! p"
    and "is_zero (baseScaler (BuildingDemandSector_aggdemand gdp p b))
       \<or> is_nan (baseScaler (BuildingDemandSector_aggdemand gdp p b))"
    by (simp_all add: BuildingDemandSector_aggdemand_def Let_def ddiv_not_finite_right
          ddiv_by_zero_not_finite)
next
  assume h: "perCapitaBased t \<and> is_zero (getBestScaledGDPperCap gdp q) \<and> 2 \<le> q
    \<and> q < length (service t) \<and> q < length (servicePreTechChange t)"
  then show "\<not> is_finite (service (TranSector_aggdemand modeltime gdp q t) ! q)"
    and "\<not> is_finite (servicePreTechChange (TranSector_aggdemand modeltime gdp q t) ! q)"
    by (simp_all add: TranSector_aggdemand_def Let_def dmul_not_finite_right
          ddiv_by_zero_not_finite ddiv_not_finite_left)
next
  assume h: "perCapitaBased t \<and> is_zero (getBestScaledGDPperCap gdp c) \<and> (c = 0 \<or> c = 1)"
  then show "service (TranSector_aggdemand modeltime gdp c t) = service t"
    and "is_zero (baseScaler (TranSector_aggdemand modeltime gdp c t))
       \<or> is_nan (baseScaler (TranSector_aggdemand modeltime gdp c t))"
    and "is_zero (baseScalerNotLic (TranSector_aggdemand modeltime gdp c t))
       \<or> is_nan (baseScalerNotLic (TranSector_aggdemand modeltime gdp c t))"
    by (auto simp add: TranSector_aggdemand_def Let_def ddiv_not_finite_right
          ddiv_by_zero_not_finite)
qed (simp_all add: BuildingDemandSector_aggdemand_def TranSector_aggdemand_def Let_def)

theorem aggdemand_zero_gdp_per_capita_witness:
  "mainLog (BuildingDemandSector_aggdemand gdp_zero_ex 2 building_percapita_ex) = []
   \<and> \<not> is_finite (service (BuildingDemandSector_aggdemand gdp_zero_ex 2 building_percapita_ex) ! 2)
   \<and> service (BuildingDemandSector_aggdemand gdp_zero_ex 1 building_percapita_ex) ! 1 = Fin 100
   \<and> \<not> is_finite (service (TranSector_aggdemand modeltime_ex gdp_zero_ex 2 tran_percapita_ex) ! 2)
   \<and> service (TranSector_aggdemand modeltime_ex gdp_zero_ex 1 tran_percapita_ex)
       = service tran_percapita_ex"
proof -
  have b: "perCapitaBased building_percapita_ex"
    "\<not> dge (baseService building_percapita_ex ! 2) (Fin 0)"
    "dge (baseService building_percapita_ex ! 1) (Fin 0)"
    "baseService building_percapita_ex ! 1 = Fin 100"
    "2 < length (service building_percapita_ex)"
    "2 < length (servicePreTechChange building_percapita_ex)"
    "1 < length (service building_percapita_ex)"
    "1 < length (servicePreTechChange building_percapita_ex)"
    "mainLog building_percapita_ex = []"
    by (simp_all add: building_percapita_ex_def building_ex_def dge_def dlt_def)
  have t: "perCapitaBased tran_percapita_ex"
    "2 < length (service tran_percapita_ex)"
    "2 < length (servicePreTechChange tran_percapita_ex)"
    by (simp_all add: tran_percapita_ex_def tran_ex_def)
  have g: "is_zero (getBestScaledGDPperCap gdp_zero_ex 1)"
    "is_zero (getBestScaledGDPperCap gdp_zero_ex 2)"
    by (simp_all add: gdp_zero_ex_def)
  show ?thesis
    using aggdemand_zero_gdp_per_capita
            [where b = building_percapita_ex and gdp = gdp_zero_ex and p = 2
               and t = tran_percapita_ex and q = 2 and c = 1 and modeltime = modeltime_ex]
          aggdemand_zero_gdp_per_capita
            [where b = building_percapita_ex and gdp = gdp_zero_ex and p = 1
               and t = tran_percapita_ex and q = 2 and c = 1 and modeltime = modeltime_ex]
          b t g
    by simp
qed

subsection \<open>Response to the price\<close>




subsection \<open>The licensed share\<close>

text \<open>
  C10, as the claim states it, fails in three ways. For the share \<open>2^60\<close> the sum
  \<open>share + (1 - share)\<close> is 0, since \<open>1 - 2^60\<close> rounds to \<open>-2^60\<close>. With everybody
  licensed, equal mode, elasticities, prices and observed service (100, at GDP 3 and
  income elasticity 1), the transportation sector fits
  \<open>baseScaler = 100 * 1 * pow(1, -0) * pow(3, -1)\<close>, which is 100 times the double
  nearest to 1/3, while the building sector fits \<open>100 / pow(1, 0) / pow(3, 1)\<close>, the
  double nearest to 100/3: the two scalers differ in the last place, and so do the
  demands of period 2 (GDP 4). And per capita, with an aggregate GDP of 0 in the base
  period, both sectors fit the scaler \<open>100 / 0\<close>, the positive infinity, but
  \<open>baseScalerNotLic\<close> is \<open>0 / 0\<close>, a NaN, so that the transportation demand of
  period 2 is a NaN where the building demand is the positive infinity.
\<close>

theorem segment_conservation_counterexample:
  "dadd (Fin (2 ^ 60)) (dsub (Fin 1) (Fin (2 ^ 60))) = Fin 0
   \<and> percentLicensed tran_third_ex ! 1 = Fin 1
   \<and> perCapitaBased tran_third_ex = perCapitaBased building_third_ex
   \<and> pElasticity tran_third_ex = pElasticity building_third_ex
   \<and> iElasticity tran_third_ex = iElasticity building_third_ex
   \<and> sectorprice tran_third_ex = sectorprice building_third_ex
   \<and> service tran_third_ex ! 1 = baseService building_third_ex ! 1
   \<and> baseScaler (TranSector_aggdemand modeltime_ex gdp_third_ex 1 tran_third_ex)
       = Fin tran_third_scaler
   \<and> baseScaler (BuildingDemandSector_aggdemand gdp_third_ex 1 building_third_ex)
       = Fin building_third_scaler
   \<and> servicePreTechChange
        (TranSector_aggdemand modeltime_ex gdp_third_ex 2
          (TranSector_aggdemand modeltime_ex gdp_third_ex 1 tran_third_ex)) ! 2
       = Fin (tran_third_scaler * 4)
   \<and> service
        (BuildingDemandSector_aggdemand gdp_third_ex 2
          (BuildingDemandSector_aggdemand gdp_third_ex 1 building_third_ex)) ! 2
       = Fin (building_third_scaler * 4)
   \<and> tran_third_scaler < building_third_scaler
   \<and> percentLicensed tran_single_pc_ex ! 1 = Fin 1
   \<and> perCapitaBased tran_single_pc_ex = perCapitaBased building_percapita_ex
   \<and> pElasticity tran_single_pc_ex = pElasticity building_percapita_ex
   \<and> iElasticity tran_single_pc_ex = iElasticity building_percapita_ex
   \<and> sectorprice tran_single_pc_ex = sectorprice building_percapita_ex
   \<and> service tran_single_pc_ex ! 1 = baseService building_percapita_ex ! 1
   \<and> baseScaler (TranSector_aggdemand modeltime_ex gdp_nogdp_ex 1 tran_single_pc_ex) = PInf
   \<and> baseScaler (BuildingDemandSector_aggdemand gdp_nogdp_ex 1 building_percapita_ex) = PInf
   \<and> baseScalerNotLic (TranSector_aggdemand modeltime_ex gdp_nogdp_ex 1 tran_single_pc_ex)
       = NaN
   \<and> servicePreTechChange
        (TranSector_aggdemand modeltime_ex gdp_nogdp_ex 2
          (TranSector_aggdemand modeltime_ex gdp_nogdp_ex 1 tran_single_pc_ex)) ! 2
       = NaN
   \<and> service
        (BuildingDemandSector_aggdemand gdp_nogdp_ex 2
          (BuildingDemandSector_aggdemand gdp_nogdp_ex 1 building_percapita_ex)) ! 2
       = PInf"
proof -
  have "percentLicensed tran_third_ex ! 1 = Fin 1
   \<and> perCapitaBased tran_third_ex = perCapitaBased building_third_ex
   \<and> pElasticity tran_third_ex = pElasticity building_third_ex
   \<and> iElasticity tran_third_ex = iElasticity building_third_ex
   \<and> sectorprice tran_third_ex = sectorprice building_third_ex
   \<and> service tran_third_ex ! 1 = baseService building_third_ex ! 1
   \<and> tran_third_scaler < building_third_scaler
   \<and> percentLicensed tran_single_pc_ex ! 1 = Fin 1
   \<and> perCapitaBased tran_single_pc_ex = perCapitaBased building_percapita_ex
   \<and> pElasticity tran_single_pc_ex = pElasticity building_percapita_ex
   \<and> iElasticity tran_single_pc_ex = iElasticity building_percapita_ex
   \<and> sectorprice tran_single_pc_ex = sectorprice building_percapita_ex
   \<and> service tran_single_pc_ex ! 1 = baseService building_percapita_ex ! 1"
    by (simp add: tran_third_ex_def tran_ex_def building_third_ex_def building_ex_def
          tran_third_scaler_def building_third_scaler_def tran_single_pc_ex_def
          tran_single_ex_def building_percapita_ex_def)
  then show ?thesis
    using tran_third_fit building_third_fit tran_third_demand building_third_demand
      share_sum_fails tran_nogdp_fit building_nogdp_fit tran_nogdp_demand
      building_nogdp_demand
    by simp
qed

text \<open>
  C10, amended. A share between 0 and 1 and its complement sum to 1, in every period.
  When the share is 1 in the base period \<open>c\<close>, \<open>baseScalerNotLic\<close> is fitted to a
  zero or to a NaN. In every period \<open>p >= 2\<close>, compare the \<open>servicePreTechChange[p]\<close> of
  the transportation sector with the \<open>service[p]\<close> of a building sector in a
  projection period that has the same mode, elasticities and prices and the
  \<open>baseScaler\<close> that the transportation sector has fitted: in the aggregate-GDP mode
  the two are the same value; per capita, the transportation value is a NaN, or the
  same value, or both are zeros.
\<close>

theorem segment_share_one_equals_simple:
  assumes "c = 0 \<or> c = 1" and "2 \<le> p"
    and "percentLicensed t ! c = Fin 1"
    and "p < length (service t)" and "p < length (servicePreTechChange t)"
    and "p < length (output_vec t)"
    and "perCapitaBased b = perCapitaBased t"
    and "pElasticity b ! p = pElasticity t ! p" and "iElasticity b ! p = iElasticity t ! p"
    and "sectorprice b ! p = sectorprice t ! p"
    and "sectorprice b ! (p - 1) = sectorprice t ! (p - 1)"
    and "baseScaler b = baseScaler (TranSector_aggdemand modeltime gdp c t)"
    and "\<not> dge (baseService b ! p) (Fin 0)"
    and "p < length (service b)" and "p < length (servicePreTechChange b)"
  shows "(0 \<le> a \<and> a \<le> 1 \<and> percentLicensed t ! q = Fin a \<longrightarrow>
            dadd (percentLicensed t ! q) (dsub (Fin 1) (percentLicensed t ! q)) = Fin 1)
       \<and> (is_zero (baseScalerNotLic (TranSector_aggdemand modeltime gdp c t))
          \<or> is_nan (baseScalerNotLic (TranSector_aggdemand modeltime gdp c t)))
       \<and> (\<not> perCapitaBased t \<longrightarrow>
            servicePreTechChange
              (TranSector_aggdemand modeltime gdp p (TranSector_aggdemand modeltime gdp c t)) ! p
             = service (BuildingDemandSector_aggdemand gdp p b) ! p)
       \<and> (perCapitaBased t \<longrightarrow>
            is_nan (servicePreTechChange
              (TranSector_aggdemand modeltime gdp p (TranSector_aggdemand modeltime gdp c t)) ! p)
          \<or> servicePreTechChange
              (TranSector_aggdemand modeltime gdp p (TranSector_aggdemand modeltime gdp c t)) ! p
             = service (BuildingDemandSector_aggdemand gdp p b) ! p
          \<or> (is_zero (servicePreTechChange
                (TranSector_aggdemand modeltime gdp p (TranSector_aggdemand modeltime gdp c t)) ! p)
             \<and> is_zero (service (BuildingDemandSector_aggdemand gdp p b) ! p)))"
proof -
  let ?t1 = "TranSector_aggdemand modeltime gdp c t"
  let ?r = "ddiv (sectorprice t ! p) (sectorprice t ! (p - 1))"
  let ?e = "pElasticity t ! p" and ?i = "iElasticity t ! p"
  let ?g = "getBestScaledGDPperCap gdp p" and ?G = "getApproxScaledGDP gdp p"
  let ?A = "dmul (dmul (baseScaler ?t1) (dpow ?r ?e)) (dpow ?g ?i)"
  let ?B = "dmul (dmul (baseScalerNotLic ?t1) (dpow ?r ?e)) (dpow ?g ?i)"
  have p1: "1 < p" using assms(2) by simp
  have shares: "0 \<le> a \<and> a \<le> 1 \<and> percentLicensed t ! q = Fin a \<longrightarrow>
            dadd (percentLicensed t ! q) (dsub (Fin 1) (percentLicensed t ! q)) = Fin 1"
    by (simp add: share_sum_unit_interval)
  have notlic: "is_zero (baseScalerNotLic ?t1) \<or> is_nan (baseScalerNotLic ?t1)"
    by (rule tran_fit_not_licensed_share_one [OF assms(1,3)])
  have tframe: "perCapitaBased ?t1 = perCapitaBased t" "pElasticity ?t1 = pElasticity t"
    "iElasticity ?t1 = iElasticity t" "sectorprice ?t1 = sectorprice t"
    "length (service ?t1) = length (service t)"
    "length (servicePreTechChange ?t1) = length (servicePreTechChange t)"
    "length (output_vec ?t1) = length (output_vec t)"
    by (simp_all add: TranSector_aggdemand_def Let_def)
  have bpr: "building_priceRatio b p = ?r"
    using p1 assms(10,11) by (simp add: building_priceRatio_def)
  have bproj: "service (BuildingDemandSector_aggdemand gdp p b) ! p =
          (if perCapitaBased t
           then dmul ?A (ddiv ?G ?g)
           else dmul (dmul (baseScaler ?t1) (dpow ?r ?e)) (dpow ?G ?i))"
    using building_projection_values [OF assms(13,14,15), of gdp]
    by (simp add: bpr assms(7,8,9,12))
  have tproj: "servicePreTechChange (TranSector_aggdemand modeltime gdp p ?t1) ! p =
          (if perCapitaBased t
           then dmul (dadd ?A ?B) (ddiv ?G ?g)
           else dmul (dmul (baseScaler ?t1) (dpow ?r ?e)) (dpow ?G ?i))"
    using tran_projection_values [of p ?t1 modeltime gdp] assms(2,4,5,6)
    by (simp add: tframe Let_def)
  have agg: "\<not> perCapitaBased t \<longrightarrow>
      servicePreTechChange (TranSector_aggdemand modeltime gdp p ?t1) ! p
        = service (BuildingDemandSector_aggdemand gdp p b) ! p"
    unfolding tproj bproj by simp
  have B: "is_zero ?B \<or> is_nan ?B"
    by (intro zero_or_nan_dmul_left notlic)
  have sum: "is_nan (dadd ?A ?B) \<or> dadd ?A ?B = ?A \<or> (is_zero (dadd ?A ?B) \<and> is_zero ?A)"
    by (rule dadd_zero_or_nan [OF is_double_dmul B])
  have pc: "perCapitaBased t \<longrightarrow>
      is_nan (servicePreTechChange (TranSector_aggdemand modeltime gdp p ?t1) ! p)
    \<or> servicePreTechChange (TranSector_aggdemand modeltime gdp p ?t1) ! p
        = service (BuildingDemandSector_aggdemand gdp p b) ! p
    \<or> (is_zero (servicePreTechChange (TranSector_aggdemand modeltime gdp p ?t1) ! p)
       \<and> is_zero (service (BuildingDemandSector_aggdemand gdp p b) ! p))"
    unfolding tproj bproj using dmul_same_or_zero [OF sum, of "ddiv ?G ?g"] by simp
  show ?thesis
    using shares notlic agg pc by blast
qed

theorem segment_share_one_equals_simple_witness:
  "perCapitaBased tran_single_pc_ex
   \<and> dadd (percentLicensed tran_single_pc_ex ! 1)
           (dsub (Fin 1) (percentLicensed tran_single_pc_ex ! 1)) = Fin 1
   \<and> baseScalerNotLic (TranSector_aggdemand modeltime_ex gdp_pc_ex 1 tran_single_pc_ex) = Fin 0
   \<and> servicePreTechChange
        (TranSector_aggdemand modeltime_ex gdp_pc_ex 2
          (TranSector_aggdemand modeltime_ex gdp_pc_ex 1 tran_single_pc_ex)) ! 2
       = service (BuildingDemandSector_aggdemand gdp_pc_ex 2 building_pc_calibrated_ex) ! 2
   \<and> service (BuildingDemandSector_aggdemand gdp_pc_ex 2 building_pc_calibrated_ex) ! 2
       = Fin 200"
  using segment_share_one_equals_simple
          [where c = 1 and p = 2 and t = tran_single_pc_ex and gdp = gdp_pc_ex
             and modeltime = modeltime_ex and b = building_pc_calibrated_ex and a = 1
             and q = 1]
  by (simp add: tran_single_pc_values building_pc_calibrated_values gdp_pc_values
        tran_single_pc_fit [unfolded One_nat_def] building_pc_demand
        tran_single_pc_not_licensed [unfolded One_nat_def]
        tran_single_pc_demand [unfolded One_nat_def]
        dge_def dlt_def dbl_eval)

end
